theory Spec2Isabelle
  imports Complex_Main "HOL-Library.Multiset"
begin

section \<open>JavaScript numbers\<close>

text \<open>
  Every numeric value of the program is a JavaScript \<^verbatim>\<open>number\<close>, an IEEE-754 double.
  The model keeps the three special values apart from the finite ones and lets a finite
  result overflow to an infinity at the binary64 threshold \<open>2^1024 - 2^970\<close>.
  Two things are left out: a finite result is kept exact (it is not rounded to 53
  significant bits, and it does not underflow), and there is a single zero (no \<open>-0\<close>).
  The sign of a zero would show only in a division by zero; the divisions of the
  modelled code are by a constant, or guarded by a test that the divisor is positive,
  or (in \<open>calculateBuySlippage\<close>) by an order size that is zero only when the cost is
  zero too, which gives \<open>NaN\<close> whatever the sign.

  Rounding matters where a statement says that a price scaled by a factor near 1
  differs from the price: in binary64 the product of the smallest subnormal number
  and 0.999 is that number again. Such statements are made for prices from the
  smallest normal number \<open>2^-1022\<close> on, where the relative gaps of the code (at least
  \<open>5 * 10^-4\<close>) are far above the rounding error (at most \<open>2^-53\<close>, relative, for a
  normal result, and \<open>2^-1075\<close>, absolute, for a subnormal one). The values computed
  at concrete inputs are the exact ones; the code's are their roundings.
\<close>

datatype number = NaN | NegInf | Fin real | PosInf

definition overflow_threshold :: real where
  "overflow_threshold = 2 ^ 1024 - 2 ^ 970"

definition ovf :: "real \<Rightarrow> number" where
  "ovf r = (if overflow_threshold \<le> r then PosInf
            else if r \<le> - overflow_threshold then NegInf
            else Fin r)"

text \<open>The smallest positive normal number.\<close>

definition min_normal :: real where
  "min_normal = 1 / 2 ^ 1022"

instantiation number :: "{plus, uminus, minus, times, inverse, abs, ord}"
begin

fun plus_number :: "number \<Rightarrow> number \<Rightarrow> number" where
  "plus_number NaN y = NaN"
| "plus_number x NaN = NaN"
| "plus_number PosInf NegInf = NaN"
| "plus_number NegInf PosInf = NaN"
| "plus_number PosInf y = PosInf"
| "plus_number x PosInf = PosInf"
| "plus_number NegInf y = NegInf"
| "plus_number x NegInf = NegInf"
| "plus_number (Fin a) (Fin b) = ovf (a + b)"

fun uminus_number :: "number \<Rightarrow> number" where
  "uminus_number NaN = NaN"
| "uminus_number PosInf = NegInf"
| "uminus_number NegInf = PosInf"
| "uminus_number (Fin a) = Fin (- a)"

definition minus_number :: "number \<Rightarrow> number \<Rightarrow> number" where
  "minus_number x y = x + (- y)"

fun times_number :: "number \<Rightarrow> number \<Rightarrow> number" where
  "times_number NaN y = NaN"
| "times_number x NaN = NaN"
| "times_number (Fin a) (Fin b) = ovf (a * b)"
| "times_number (Fin a) PosInf = (if a = 0 then NaN else if 0 < a then PosInf else NegInf)"
| "times_number (Fin a) NegInf = (if a = 0 then NaN else if 0 < a then NegInf else PosInf)"
| "times_number PosInf (Fin b) = (if b = 0 then NaN else if 0 < b then PosInf else NegInf)"
| "times_number NegInf (Fin b) = (if b = 0 then NaN else if 0 < b then NegInf else PosInf)"
| "times_number PosInf PosInf = PosInf"
| "times_number NegInf NegInf = PosInf"
| "times_number PosInf NegInf = NegInf"
| "times_number NegInf PosInf = NegInf"

fun divide_number :: "number \<Rightarrow> number \<Rightarrow> number" where
  "divide_number NaN y = NaN"
| "divide_number x NaN = NaN"
| "divide_number (Fin a) (Fin b) =
     (if b = 0 then (if a = 0 then NaN else if 0 < a then PosInf else NegInf)
      else ovf (a / b))"
| "divide_number (Fin a) PosInf = Fin 0"
| "divide_number (Fin a) NegInf = Fin 0"
| "divide_number PosInf (Fin b) = (if 0 \<le> b then PosInf else NegInf)"
| "divide_number NegInf (Fin b) = (if 0 \<le> b then NegInf else PosInf)"
| "divide_number x y = NaN"

definition inverse_number :: "number \<Rightarrow> number" where
  "inverse_number x = divide (Fin 1) x"

fun abs_number :: "number \<Rightarrow> number" where
  "abs_number NaN = NaN"
| "abs_number PosInf = PosInf"
| "abs_number NegInf = PosInf"
| "abs_number (Fin a) = Fin \<bar>a\<bar>"

text \<open>Comparisons: every comparison with \<open>NaN\<close> is false.\<close>

fun less_number :: "number \<Rightarrow> number \<Rightarrow> bool" where
  "less_number NaN y = False"
| "less_number x NaN = False"
| "less_number (Fin a) (Fin b) = (a < b)"
| "less_number x NegInf = False"
| "less_number NegInf y = True"
| "less_number PosInf y = False"
| "less_number x PosInf = True"

fun less_eq_number :: "number \<Rightarrow> number \<Rightarrow> bool" where
  "less_eq_number NaN y = False"
| "less_eq_number x NaN = False"
| "less_eq_number (Fin a) (Fin b) = (a \<le> b)"
| "less_eq_number NegInf y = True"
| "less_eq_number x PosInf = True"
| "less_eq_number x y = False"

instance ..

end

text \<open>\<^verbatim>\<open>Math.max\<close>, \<^verbatim>\<open>Math.min\<close>: \<open>NaN\<close> when an argument is \<open>NaN\<close>.\<close>

definition Math_max :: "number \<Rightarrow> number \<Rightarrow> number" where
  "Math_max x y = (if x = NaN \<or> y = NaN then NaN else if x < y then y else x)"

definition Math_min :: "number \<Rightarrow> number \<Rightarrow> number" where
  "Math_min x y = (if x = NaN \<or> y = NaN then NaN else if y < x then y else x)"

text \<open>\<^verbatim>\<open>Math.log10\<close>: \<open>-Infinity\<close> at 0, \<open>NaN\<close> below 0.\<close>

fun Math_log10 :: "number \<Rightarrow> number" where
  "Math_log10 NaN = NaN"
| "Math_log10 NegInf = NaN"
| "Math_log10 PosInf = PosInf"
| "Math_log10 (Fin a) = (if a < 0 then NaN else if a = 0 then NegInf else Fin (log 10 a))"

text \<open>\<^verbatim>\<open>Math.round\<close>: the nearest integer, a half rounded up.\<close>

fun Math_round :: "number \<Rightarrow> number" where
  "Math_round (Fin a) = Fin (of_int \<lfloor>a + 1 / 2\<rfloor>)"
| "Math_round x = x"

text \<open>\<^verbatim>\<open>isNaN\<close>, and the truthiness of a number (\<open>0\<close> and \<open>NaN\<close> are falsy).\<close>

definition isNaN :: "number \<Rightarrow> bool" where
  "isNaN x = (x = NaN)"

definition truthy :: "number \<Rightarrow> bool" where
  "truthy x = (x \<noteq> NaN \<and> x \<noteq> Fin 0)"

text \<open>\<^verbatim>\<open>x || 0\<close> on a possibly missing number.\<close>

definition or_zero :: "number option \<Rightarrow> number" where
  "or_zero x = (case x of None \<Rightarrow> Fin 0 | Some v \<Rightarrow> if truthy v then v else Fin 0)"

section \<open>Data model (shared/schema.ts)\<close>

text \<open>
  Optional members (\<^verbatim>\<open>field?: T\<close>) are options. Timestamps are the integer
  milliseconds of \<^verbatim>\<open>Date.now()\<close>. The member \<^verbatim>\<open>size\<close> of a depth level is
  \<open>size_lvl\<close>, and the members of a trade carry the prefix \<open>trade_\<close>, because record
  fields share one name space.
\<close>

record DepthLevel =
  price :: number
  size_lvl :: number
  total :: "number option"

record DepthLevels =
  bids :: "DepthLevel list"
  asks :: "DepthLevel list"

record SlippageImpact =
  small :: number
  medium :: number
  large :: number

record NormalizedLiquiditySnapshot =
  symbol :: string
  timestamp :: int
  bidPrice :: number
  askPrice :: number
  bidSize :: number
  askSize :: number
  volume24h :: number
  depthLevels :: "DepthLevels option"
  source :: string
  liquidityScore :: "number option"
  marketDepthRatio :: "number option"
  volumeToMcapRatio :: "number option"
  spreadPercentage :: "number option"
  slippageImpact :: "SlippageImpact option"

record Trade =
  trade_symbol :: string
  trade_timestamp :: int
  trade_price :: number
  trade_size :: number
  isBuyerMaker :: bool

section \<open>Symbol store (MemStorage)\<close>

text \<open>
  The two maps of the class that the liquidity dashboard uses, and the configured
  symbols. The \<^verbatim>\<open>users\<close> map and \<^verbatim>\<open>currentId\<close> belong to the unrelated user
  methods and are left out. Each method returns the store it leaves behind.
\<close>

record MemStorage =
  liquiditySnapshots :: "string \<rightharpoonup> NormalizedLiquiditySnapshot"
  tradeHistory :: "string \<rightharpoonup> Trade list"
  symbols :: "string list"

definition newMemStorage :: MemStorage where
  "newMemStorage = \<lparr> liquiditySnapshots = Map.empty, tradeHistory = Map.empty,
     symbols = [''BTC/USD'', ''ETH/USD'', ''LTC/USD'', ''XRP/USD'', ''BCH/USD''] \<rparr>"

definition getSymbols :: "MemStorage \<Rightarrow> string list" where
  "getSymbols st = symbols st"

definition getLiquiditySnapshot :: "MemStorage \<Rightarrow> string \<Rightarrow> NormalizedLiquiditySnapshot option" where
  "getLiquiditySnapshot st symb = liquiditySnapshots st symb"

definition saveLiquiditySnapshot :: "MemStorage \<Rightarrow> NormalizedLiquiditySnapshot \<Rightarrow> MemStorage" where
  "saveLiquiditySnapshot st snapshot =
     st\<lparr> liquiditySnapshots := (liquiditySnapshots st)(symbol snapshot \<mapsto> snapshot) \<rparr>"

text \<open>
  \<^verbatim>\<open>Array.prototype.slice(0, end)\<close> for an integer \<open>end\<close>: a negative \<open>end\<close> counts
  from the end of the array. The limit of \<open>getRecentTrades\<close> is an integer here: the
  default 50, or what \<^verbatim>\<open>parseInt\<close> makes of a numeric query value.
\<close>

definition slice0 :: "'a list \<Rightarrow> int \<Rightarrow> 'a list" where
  "slice0 xs end_ix =
     (if end_ix < 0 then take (nat (int (length xs) + end_ix)) xs
      else take (nat end_ix) xs)"

definition getRecentTrades :: "MemStorage \<Rightarrow> string \<Rightarrow> int \<Rightarrow> Trade list" where
  "getRecentTrades st symb limit =
     (let trades = (case tradeHistory st symb of None \<Rightarrow> [] | Some ts \<Rightarrow> ts)
      in slice0 trades limit)"

definition getRecentTrades_default :: "MemStorage \<Rightarrow> string \<Rightarrow> Trade list" where
  "getRecentTrades_default st symb = getRecentTrades st symb 50"

definition saveTrade :: "MemStorage \<Rightarrow> Trade \<Rightarrow> MemStorage" where
  "saveTrade st trade =
     (let symb = trade_symbol trade;
          trades = (case tradeHistory st symb of None \<Rightarrow> [] | Some ts \<Rightarrow> ts);
          trades1 = trade # trades;
          trades2 = (if length trades1 > 100 then take 100 trades1 else trades1)
      in st\<lparr> tradeHistory := (tradeHistory st)(symb \<mapsto> trades2) \<rparr>)"

text \<open>A sequence of \<^verbatim>\<open>saveTrade\<close> calls, the first trade of the list saved first.\<close>

definition saveTrades :: "MemStorage \<Rightarrow> Trade list \<Rightarrow> MemStorage" where
  "saveTrades st ts = foldl saveTrade st ts"

text \<open>The trades of one symbol among those saved, newest first.\<close>

definition saved_for :: "string \<Rightarrow> Trade list \<Rightarrow> Trade list" where
  "saved_for symb ts = rev (filter (\<lambda>t. trade_symbol t = symb) ts)"

section \<open>The outside world and the module state of the routes\<close>

text \<open>
  A thrown value. \<open>Error msg\<close> is \<^verbatim>\<open>new Error(msg)\<close>, \<open>TypeError\<close> the error of
  reading a member of \<^verbatim>\<open>null\<close> or \<^verbatim>\<open>undefined\<close>, and \<open>Rejected name\<close> the
  rejection of an external call (axios, yahoo-finance2), with its \<^verbatim>\<open>name\<close>.
\<close>

datatype error = Error string | TypeError | Rejected string

text \<open>
  The quote of yahoo-finance2, reduced to the members the code reads. A call of
  \<^verbatim>\<open>yahooFinance.quote\<close> resolves to a quote (or to nothing), or rejects; a rejection
  named \<^verbatim>\<open>TransformDecodeCheckError\<close> may carry the raw entries in \<^verbatim>\<open>error.value\<close>
  (\<open>None\<close> when that member is missing or is no array; an entry is \<open>None\<close> when falsy).
\<close>

record YahooQuote =
  regularMarketPrice :: "number option"
  regularMarketVolume :: "number option"
  marketCap :: "number option"

datatype yahoo_response =
    QuoteResolved "YahooQuote option"
  | TransformDecodeCheckError "YahooQuote option list option"
  | QuoteRejected error

text \<open>
  The body of the Alpha Vantage daily response, reduced to what the code reads. A data
  point maps a field name to the number \<^verbatim>\<open>parseFloat\<close> makes of the field's text
  (\<open>NaN\<close> for text that is no number); a field that is absent is read as
  \<^verbatim>\<open>parseFloat(undefined)\<close>, also \<open>NaN\<close>. The time series lists its entries in key
  order; an entry's data point is \<open>None\<close> when falsy. \<open>NoBody\<close> is a response whose
  \<^verbatim>\<open>data\<close> is \<^verbatim>\<open>null\<close> or \<^verbatim>\<open>undefined\<close>.
\<close>

type_synonym daily_point = "(string \<times> number) list"

type_synonym time_series = "(string \<times> daily_point option) list"

datatype av_body = NoBody | Body "time_series option"

record 'a CacheEntry =
  entry_data :: 'a
  entry_timestamp :: int

datatype adapter = YahooFinance | AlphaVantageDaily

text \<open>
  What one run reads from outside: the clock (read once), the successive results of
  \<^verbatim>\<open>Math.random()\<close> (each in \<open>[0, 1)\<close>), the successive results of
  \<^verbatim>\<open>yahooFinance.quote\<close>, the result of \<^verbatim>\<open>axios.get\<close> per URL, and the API key
  of the environment.
\<close>

record World =
  now :: int
  random :: "nat \<Rightarrow> real"
  yahooFinance_quote :: "nat \<Rightarrow> string \<Rightarrow> yahoo_response"
  axios_get :: "string \<Rightarrow> error + av_body"
  ALPHA_VANTAGE_API_KEY :: string

text \<open>
  The module state. \<^verbatim>\<open>apiCache\<close> holds raw responses under the keys of
  \<open>getCachedOrFetch\<close> and whole snapshots under the keys \<^verbatim>\<open>yahoo-...\<close>; the two
  families of keys are disjoint, and the model keeps one map for each. \<open>drawn\<close> and
  \<open>quoted\<close> count the calls of \<^verbatim>\<open>Math.random\<close> and \<^verbatim>\<open>yahooFinance.quote\<close> made so
  far, \<open>fetched\<close> lists the URLs requested, and \<open>calls\<close> records each entry into a
  provider adapter (where the code logs its \<^verbatim>\<open>Fetching ... data for\<close> line).
\<close>

record ApiState =
  apiCache :: "string \<rightharpoonup> av_body CacheEntry"
  yahooCache :: "string \<rightharpoonup> NormalizedLiquiditySnapshot CacheEntry"
  drawn :: nat
  quoted :: nat
  fetched :: "string list"
  calls :: "adapter list"

definition Math_random :: "World \<Rightarrow> ApiState \<Rightarrow> number \<times> ApiState" where
  "Math_random w st = (Fin (random w (drawn st)), st\<lparr> drawn := Suc (drawn st) \<rparr>)"

subsection \<open>Strings\<close>

text \<open>\<^verbatim>\<open>symbol.replace('/', '-')\<close> replaces the first slash.\<close>

fun replace_slash :: "string \<Rightarrow> string" where
  "replace_slash [] = []"
| "replace_slash (c # cs) = (if c = CHR ''/'' then CHR ''-'' # cs else c # replace_slash cs)"

text \<open>\<^verbatim>\<open>symbol.split('/')\<close>.\<close>

fun split_slash :: "string \<Rightarrow> string list" where
  "split_slash [] = [] # []"
| "split_slash (c # cs) =
     (if c = CHR ''/'' then [] # split_slash cs
      else (case split_slash cs of [] \<Rightarrow> [c] # [] | p # ps \<Rightarrow> (c # p) # ps))"

text \<open>
  The two names of \<^verbatim>\<open>const [baseCurrency, quoteCurrency] = symbol.split('/')\<close>, as
  the template strings and \<^verbatim>\<open>includes\<close> print them: a missing second part is
  \<^verbatim>\<open>undefined\<close>.
\<close>

definition baseCurrency :: "string \<Rightarrow> string" where
  "baseCurrency symb = (case split_slash symb of [] \<Rightarrow> ''undefined'' | b # _ \<Rightarrow> b)"

definition quoteCurrency :: "string \<Rightarrow> string" where
  "quoteCurrency symb = (case split_slash symb of b # q # _ \<Rightarrow> q | _ \<Rightarrow> ''undefined'')"

text \<open>\<^verbatim>\<open>s.includes(sub)\<close>.\<close>

fun includes_str :: "string \<Rightarrow> string \<Rightarrow> bool" where
  "includes_str [] sub = (sub = [])"
| "includes_str (c # cs) sub = (take (length sub) (c # cs) = sub \<or> includes_str cs sub)"

subsection \<open>Request cache\<close>

text \<open>
  \<open>getCachedOrFetch\<close> returns the outcome, the cache it leaves and the URLs it
  requested. \<open>ttl = None\<close> is a call that leaves the parameter to its default.
\<close>

definition getCachedOrFetch ::
  "(string \<Rightarrow> error + 'a) \<Rightarrow> int \<Rightarrow> (string \<rightharpoonup> 'a CacheEntry) \<Rightarrow> string \<Rightarrow> string \<Rightarrow> int option
     \<Rightarrow> (error + 'a) \<times> (string \<rightharpoonup> 'a CacheEntry) \<times> string list" where
  "getCachedOrFetch get now_ms cache url cacheKey ttl =
     (let ttlMs = (case ttl of None \<Rightarrow> 5000 | Some t \<Rightarrow> t);
          request =
            (case get url of
               Inr data \<Rightarrow>
                 (Inr data,
                  cache(cacheKey \<mapsto> \<lparr> entry_data = data, entry_timestamp = now_ms \<rparr>),
                  [url])
             | Inl err \<Rightarrow> (Inl err, cache, [url]))
      in case cache cacheKey of
           None \<Rightarrow> request
         | Some cached \<Rightarrow>
             if now_ms - entry_timestamp cached < ttlMs then (Inr (entry_data cached), cache, [])
             else request)"

subsection \<open>Provider adapter: Yahoo Finance\<close>

text \<open>
  The inner \<^verbatim>\<open>try\<close> of \<open>fetchYahooFinanceData\<close>: the quote, the first raw entry of
  a decode error, or the error thrown on.
\<close>

definition quoteData_of :: "string \<Rightarrow> yahoo_response \<Rightarrow> error + YahooQuote option" where
  "quoteData_of symb resp =
     (case resp of
        QuoteResolved q \<Rightarrow> Inr q
      | TransformDecodeCheckError v \<Rightarrow>
          (case v of
             Some (x # xs) \<Rightarrow> Inr x
           | _ \<Rightarrow> Inl (Error (''Unable to extract data from Yahoo Finance response for '' @ symb)))
      | QuoteRejected err \<Rightarrow> Inl err)"

text \<open>The snapshot built from a quote; it draws two random numbers.\<close>

definition yahooSnapshot ::
  "World \<Rightarrow> ApiState \<Rightarrow> string \<Rightarrow> YahooQuote \<Rightarrow> NormalizedLiquiditySnapshot \<times> ApiState" where
  "yahooSnapshot w st symb quoteData =
     (let marketPrice = or_zero (regularMarketPrice quoteData);
          dayVolume = or_zero (regularMarketVolume quoteData);
          spreadFactor = Fin 0.0005;
          bid = marketPrice * (Fin 1 - spreadFactor);
          ask = marketPrice * (Fin 1 + spreadFactor);
          (r1, st1) = Math_random w st;
          bsize = dayVolume * Fin 0.000001 * (Fin 0.5 + r1 * Fin 0.5);
          (r2, st2) = Math_random w st1;
          asize = dayVolume * Fin 0.000001 * (Fin 0.5 + r2 * Fin 0.5)
      in (\<lparr> symbol = symb, timestamp = now w, bidPrice = bid, askPrice = ask,
             bidSize = bsize, askSize = asize, volume24h = dayVolume, depthLevels = None,
             source = ''yahoo-finance'', liquidityScore = None, marketDepthRatio = None,
             volumeToMcapRatio = None, spreadPercentage = None, slippageImpact = None \<rparr>,
          st2))"

definition fetchYahooFinanceData ::
  "World \<Rightarrow> ApiState \<Rightarrow> string \<Rightarrow> (error + NormalizedLiquiditySnapshot) \<times> ApiState" where
  "fetchYahooFinanceData w st0 symb =
     (let st = st0\<lparr> calls := calls st0 @ [YahooFinance] \<rparr>;
          yahooSymbol = replace_slash symb;
          cacheKey = ''yahoo-'' @ symb;
          request =
            (let resp = yahooFinance_quote w (quoted st) yahooSymbol;
                 st1 = st\<lparr> quoted := Suc (quoted st) \<rparr>
             in case quoteData_of symb resp of
                  Inl err \<Rightarrow> (Inl err, st1)
                | Inr None \<Rightarrow>
                    (Inl (Error (''No data available from Yahoo Finance for '' @ symb)), st1)
                | Inr (Some quoteData) \<Rightarrow>
                    (let (snapshot, st2) = yahooSnapshot w st1 symb quoteData
                     in (Inr snapshot,
                         st2\<lparr> yahooCache := (yahooCache st2)(cacheKey \<mapsto>
                               \<lparr> entry_data = snapshot, entry_timestamp = now w \<rparr>) \<rparr>)))
      in case yahooCache st cacheKey of
           None \<Rightarrow> request
         | Some cachedData \<Rightarrow>
             if now w - entry_timestamp cachedData < 30000 then (Inr (entry_data cachedData), st)
             else request)"

subsection \<open>Provider adapter: Alpha Vantage daily\<close>

definition placeholderSnapshot :: "World \<Rightarrow> string \<Rightarrow> NormalizedLiquiditySnapshot" where
  "placeholderSnapshot w symb =
     \<lparr> symbol = symb, timestamp = now w, bidPrice = Fin 0, askPrice = Fin 0,
       bidSize = Fin 0, askSize = Fin 0, volume24h = Fin 0, depthLevels = None,
       source = ''alphavantage-daily-error'', liquidityScore = None, marketDepthRatio = None,
       volumeToMcapRatio = None, spreadPercentage = None, slippageImpact = None \<rparr>"

definition default_close :: "string \<Rightarrow> number" where
  "default_close symb =
     (if symb = ''BTC/USD'' then Fin 50000
      else if symb = ''ETH/USD'' then Fin 2000
      else if symb = ''LTC/USD'' then Fin 100
      else if symb = ''XRP/USD'' then Fin 0.5
      else if symb = ''BCH/USD'' then Fin 300
      else Fin 100)"

text \<open>
  The close price and the volume read from the latest data point. Nothing in the
  \<^verbatim>\<open>try\<close> block of the source can throw on a data point, so its \<^verbatim>\<open>catch\<close> has no
  counterpart here.
\<close>

definition daily_close_volume :: "string \<Rightarrow> daily_point \<Rightarrow> number \<times> number" where
  "daily_close_volume symb latestData =
     (let field = (\<lambda>name. case map_of latestData name of None \<Rightarrow> NaN | Some v \<Rightarrow> v);
          closePrice0 = field (''4a. close ('' @ quoteCurrency symb @ '')'');
          volume0 = field ''5. volume'';
          closePrice =
            (if isNaN closePrice0 then
               (let alternativeCloseField =
                      find (\<lambda>key. includes_str key ''close'' \<and> includes_str key (quoteCurrency symb))
                        (map fst latestData);
                    closePrice1 =
                      (case alternativeCloseField of None \<Rightarrow> closePrice0 | Some key \<Rightarrow> field key)
                in if isNaN closePrice1 then default_close symb else closePrice1)
             else closePrice0);
          volume = (if isNaN volume0 then Fin 1000 else volume0)
      in (closePrice, volume))"

definition dailySnapshot ::
  "World \<Rightarrow> ApiState \<Rightarrow> string \<Rightarrow> number \<Rightarrow> number \<Rightarrow> NormalizedLiquiditySnapshot \<times> ApiState" where
  "dailySnapshot w st symb closePrice volume =
     (let spreadFactor = Fin 0.001;
          bid = closePrice * (Fin 1 - spreadFactor);
          ask = closePrice * (Fin 1 + spreadFactor);
          (r1, st1) = Math_random w st;
          bsize = volume * Fin 0.0001 * (Fin 0.5 + r1 * Fin 0.5);
          (r2, st2) = Math_random w st1;
          asize = volume * Fin 0.0001 * (Fin 0.5 + r2 * Fin 0.5)
      in (\<lparr> symbol = symb, timestamp = now w, bidPrice = bid, askPrice = ask,
             bidSize = bsize, askSize = asize, volume24h = volume, depthLevels = None,
             source = ''alphavantage-daily'', liquidityScore = None, marketDepthRatio = None,
             volumeToMcapRatio = None, spreadPercentage = None, slippageImpact = None \<rparr>,
          st2))"

definition dailyUrl :: "World \<Rightarrow> string \<Rightarrow> string" where
  "dailyUrl w symb =
     ''https://www.alphavantage.co/query?function=DIGITAL_CURRENCY_DAILY&symbol='' @ baseCurrency symb
       @ ''&market='' @ quoteCurrency symb @ ''&apikey='' @ ALPHA_VANTAGE_API_KEY w"

definition fetchAlphaVantageDailyData ::
  "World \<Rightarrow> ApiState \<Rightarrow> string \<Rightarrow> (error + NormalizedLiquiditySnapshot) \<times> ApiState" where
  "fetchAlphaVantageDailyData w st0 symb =
     (let st = st0\<lparr> calls := calls st0 @ [AlphaVantageDaily] \<rparr>;
          (res, cache1, urls) =
            getCachedOrFetch (axios_get w) (now w) (apiCache st) (dailyUrl w symb)
              (''alphavantage-daily-'' @ symb) (Some 300000);
          st1 = st\<lparr> apiCache := cache1, fetched := fetched st @ urls \<rparr>
      in case res of
           Inl err \<Rightarrow> (Inl err, st1)
         | Inr NoBody \<Rightarrow> (Inl TypeError, st1)
         | Inr (Body None) \<Rightarrow> (Inr (placeholderSnapshot w symb), st1)
         | Inr (Body (Some timeSeries)) \<Rightarrow>
             (case timeSeries of
                [] \<Rightarrow> (Inr (placeholderSnapshot w symb), st1)
              | (latestTimestamp, None) # rest \<Rightarrow> (Inr (placeholderSnapshot w symb), st1)
              | (latestTimestamp, Some latestData) # rest \<Rightarrow>
                  (let (closePrice, volume) = daily_close_volume symb latestData;
                       (snapshot, st2) = dailySnapshot w st1 symb closePrice volume
                   in (Inr snapshot, st2))))"

text \<open>
  Two conditions of the adapters, named for the statements below: the Yahoo adapter
  finds no cached snapshot younger than 30 seconds, and the response that the Alpha
  Vantage adapter awaits from \<open>getCachedOrFetch\<close>.
\<close>

abbreviation yahooCacheStale :: "World \<Rightarrow> ApiState \<Rightarrow> string \<Rightarrow> bool" where
  "yahooCacheStale w st symb \<equiv>
     (case yahooCache st (''yahoo-'' @ symb) of
        None \<Rightarrow> True
      | Some cachedData \<Rightarrow> \<not> now w - entry_timestamp cachedData < 30000)"

abbreviation dailyResponse :: "World \<Rightarrow> ApiState \<Rightarrow> string \<Rightarrow> error + av_body" where
  "dailyResponse w st symb \<equiv>
     fst (getCachedOrFetch (axios_get w) (now w) (apiCache st) (dailyUrl w symb)
            (''alphavantage-daily-'' @ symb) (Some 300000))"

subsection \<open>Order-book synthesizer\<close>

text \<open>
  Each loop runs for \<open>i = 0, ..., 9\<close> and draws two random numbers per level, so the
  function makes forty draws; \<open>rs k\<close> is the \<open>k\<close>-th of them. A level is the pair
  \<^verbatim>\<open>[price, size]\<close>.
\<close>

definition bidLevel :: "number \<Rightarrow> number \<Rightarrow> (nat \<Rightarrow> real) \<Rightarrow> nat \<Rightarrow> number \<times> number" where
  "bidLevel bid bsize rs i =
     (let priceDecrease = (Fin (real i) * Fin 0.0005 + Fin 0.0001 * Fin (rs (2 * i))) * bid;
          sz = bsize * (Fin 1 - Fin (real i) * Fin 0.08) * (Fin 0.8 + Fin (rs (2 * i + 1)) * Fin 0.4)
      in (bid - priceDecrease, sz))"

definition askLevel :: "number \<Rightarrow> number \<Rightarrow> (nat \<Rightarrow> real) \<Rightarrow> nat \<Rightarrow> number \<times> number" where
  "askLevel ask asize rs i =
     (let priceIncrease = (Fin (real i) * Fin 0.0005 + Fin 0.0001 * Fin (rs (20 + 2 * i))) * ask;
          sz = asize * (Fin 1 - Fin (real i) * Fin 0.08) * (Fin 0.8 + Fin (rs (20 + 2 * i + 1)) * Fin 0.4)
      in (ask + priceIncrease, sz))"

definition generateOrderBookData ::
  "number \<Rightarrow> number \<Rightarrow> number \<Rightarrow> number \<Rightarrow> (nat \<Rightarrow> real)
     \<Rightarrow> (number \<times> number) list \<times> (number \<times> number) list" where
  "generateOrderBookData bid ask bsize asize rs =
     (map (bidLevel bid bsize rs) [0..<10], map (askLevel ask asize rs) [0..<10])"

subsection \<open>Liquidity metrics engine\<close>

record LiquidityMetrics =
  m_liquidityScore :: number
  m_marketDepthRatio :: number
  m_volumeToMcapRatio :: "number option"
  m_spreadPercentage :: number
  m_slippageImpact :: SlippageImpact

text \<open>
  The loop of \<open>calculateBuySlippage\<close> over the ask levels, as long as something remains
  to fill: it returns what remains and the cost so far.
\<close>

fun consume_levels :: "DepthLevel list \<Rightarrow> number \<Rightarrow> number \<Rightarrow> number \<times> number" where
  "consume_levels [] remainingSize totalCost = (remainingSize, totalCost)"
| "consume_levels (level # rest) remainingSize totalCost =
     (if Fin 0 < remainingSize then
        (let sizeToTake = Math_min remainingSize (size_lvl level)
         in consume_levels rest (remainingSize - sizeToTake) (totalCost + sizeToTake * price level))
      else (remainingSize, totalCost))"

definition calculateBuySlippage :: "DepthLevel list \<Rightarrow> number \<Rightarrow> number \<Rightarrow> number" where
  "calculateBuySlippage ask_levels ask orderSize =
     (let (remainingSize, cost) = consume_levels ask_levels orderSize (Fin 0);
          totalCost =
            (if Fin 0 < remainingSize \<and> ask_levels \<noteq> []
             then cost + remainingSize * price (last ask_levels) else cost);
          averagePrice = totalCost / orderSize
      in if Fin 0 < ask then (averagePrice / ask - Fin 1) * Fin 100 else Fin 0)"

definition calculateLiquidityMetrics ::
  "number \<Rightarrow> number \<Rightarrow> number \<Rightarrow> number \<Rightarrow> number \<Rightarrow> number \<Rightarrow> number option
     \<Rightarrow> DepthLevels option \<Rightarrow> LiquidityMetrics" where
  "calculateLiquidityMetrics prc bid ask bsize asize volume mcap levels =
     (let spread = ask - bid;
          spreadPct = (if Fin 0 < prc then (spread / prc) * Fin 100 else Fin 0);
          depthRatio = (if Fin 0 < asize then bsize / asize else Fin 1);
          volumeToMcap =
            (case mcap of
               None \<Rightarrow> None
             | Some cap \<Rightarrow> if truthy cap \<and> Fin 0 < cap then Some ((volume / cap) * Fin 100) else None);
          slippage =
            (case levels of
               None \<Rightarrow>
                 \<lparr> small = spreadPct * Fin 0.5, medium = spreadPct * Fin 1.5,
                   large = spreadPct * Fin 3 \<rparr>
             | Some lv \<Rightarrow>
                 if bids lv \<noteq> [] \<and> asks lv \<noteq> [] then
                   \<lparr> small = calculateBuySlippage (asks lv) ask (volume * Fin 0.001),
                     medium = calculateBuySlippage (asks lv) ask (volume * Fin 0.005),
                     large = calculateBuySlippage (asks lv) ask (volume * Fin 0.01) \<rparr>
                 else
                   \<lparr> small = spreadPct * Fin 0.5, medium = spreadPct * Fin 1.5,
                     large = spreadPct * Fin 3 \<rparr>);
          spreadScore = Math_max (Fin 0) (Fin 40 - spreadPct * Fin 100);
          volumeScore =
            (case mcap of
               None \<Rightarrow> Math_min (Fin 40) (Math_log10 volume * Fin 4)
             | Some cap \<Rightarrow>
                 if truthy cap \<and> Fin 0 < cap then Math_min (Fin 40) ((volume / cap) * Fin 40000)
                 else Math_min (Fin 40) (Math_log10 volume * Fin 4));
          depthBalanceScore = Fin 20 - \<bar>Fin 1 - depthRatio\<bar> * Fin 10;
          score =
            Math_round
              (Math_max (Fin 0) (Math_min (Fin 100) (spreadScore + volumeScore + depthBalanceScore)))
      in \<lparr> m_liquidityScore = score, m_marketDepthRatio = depthRatio,
           m_volumeToMcapRatio = volumeToMcap, m_spreadPercentage = spreadPct,
           m_slippageImpact = slippage \<rparr>)"

subsection \<open>Fallback aggregator\<close>

text \<open>
  Both branches of \<open>fetchAllDataForSymbol\<close> enrich the adapter's snapshot by the same
  statements: the order book from forty draws, the depth levels, the metrics, and the
  spread \<^verbatim>\<open>{...data, depthLevels, liquidityScore, ...}\<close>.
\<close>

definition toDepthLevel :: "number \<times> number \<Rightarrow> DepthLevel" where
  "toDepthLevel lv = \<lparr> price = fst lv, size_lvl = snd lv, total = None \<rparr>"

definition withMetrics ::
  "NormalizedLiquiditySnapshot \<Rightarrow> number option \<Rightarrow> (nat \<Rightarrow> real) \<Rightarrow> NormalizedLiquiditySnapshot" where
  "withMetrics d mcap rs =
     (let avgPrice = (bidPrice d + askPrice d) / Fin 2;
          (bs, as) = generateOrderBookData (bidPrice d) (askPrice d) (bidSize d) (askSize d) rs;
          levels = \<lparr> bids = map toDepthLevel bs, asks = map toDepthLevel as \<rparr>;
          metrics =
            calculateLiquidityMetrics avgPrice (bidPrice d) (askPrice d) (bidSize d) (askSize d)
              (volume24h d) mcap (Some levels)
      in d\<lparr> depthLevels := Some levels,
            liquidityScore := Some (m_liquidityScore metrics),
            marketDepthRatio := Some (m_marketDepthRatio metrics),
            volumeToMcapRatio := m_volumeToMcapRatio metrics,
            spreadPercentage := Some (m_spreadPercentage metrics),
            slippageImpact := Some (m_slippageImpact metrics) \<rparr>)"

text \<open>
  The second call of \<^verbatim>\<open>yahooFinance.quote\<close>, for the market cap; its own
  \<^verbatim>\<open>try\<close>/\<^verbatim>\<open>catch\<close> turns every failure into an unknown market cap.
\<close>

definition marketCap_of :: "YahooQuote option \<Rightarrow> number option" where
  "marketCap_of q =
     (case q of
        None \<Rightarrow> None
      | Some quoteData \<Rightarrow>
          (case marketCap quoteData of
             None \<Rightarrow> None
           | Some cap \<Rightarrow> if truthy cap then Some cap else None))"

definition lookupMarketCap :: "World \<Rightarrow> ApiState \<Rightarrow> string \<Rightarrow> number option \<times> ApiState" where
  "lookupMarketCap w st symb =
     (let resp = yahooFinance_quote w (quoted st) (replace_slash symb);
          st1 = st\<lparr> quoted := Suc (quoted st) \<rparr>
      in case resp of
           QuoteResolved q \<Rightarrow> (marketCap_of q, st1)
         | TransformDecodeCheckError v \<Rightarrow>
             (case v of Some (x # xs) \<Rightarrow> (marketCap_of x, st1) | _ \<Rightarrow> (None, st1))
         | QuoteRejected err \<Rightarrow> (None, st1))"

text \<open>The body of the outer \<^verbatim>\<open>try\<close>: Yahoo Finance, then the enrichment.\<close>

definition yahooBranch ::
  "World \<Rightarrow> ApiState \<Rightarrow> string \<Rightarrow> (error + NormalizedLiquiditySnapshot) \<times> ApiState" where
  "yahooBranch w st symb =
     (case fetchYahooFinanceData w st symb of
        (Inl err, st1) \<Rightarrow> (Inl err, st1)
      | (Inr yahooData, st1) \<Rightarrow>
          (let rs = (\<lambda>k. random w (drawn st1 + k));
               st2 = st1\<lparr> drawn := drawn st1 + 40 \<rparr>;
               (mcap, st3) = lookupMarketCap w st2 symb
           in (Inr (withMetrics yahooData mcap rs), st3)))"

text \<open>The body of the inner \<^verbatim>\<open>try\<close>: Alpha Vantage daily, then the enrichment.\<close>

definition alphaVantageBranch ::
  "World \<Rightarrow> ApiState \<Rightarrow> string \<Rightarrow> (error + NormalizedLiquiditySnapshot) \<times> ApiState" where
  "alphaVantageBranch w st symb =
     (case fetchAlphaVantageDailyData w st symb of
        (Inl err, st1) \<Rightarrow> (Inl err, st1)
      | (Inr dailyData, st1) \<Rightarrow>
          (let rs = (\<lambda>k. random w (drawn st1 + k));
               st2 = st1\<lparr> drawn := drawn st1 + 40 \<rparr>
           in (Inr (withMetrics dailyData None rs), st2)))"

definition errorSnapshot :: "World \<Rightarrow> string \<Rightarrow> NormalizedLiquiditySnapshot" where
  "errorSnapshot w symb =
     \<lparr> symbol = symb, timestamp = now w, bidPrice = Fin 0, askPrice = Fin 0,
       bidSize = Fin 0, askSize = Fin 0, volume24h = Fin 0, depthLevels = None,
       source = ''error'', liquidityScore = Some (Fin 0), marketDepthRatio = Some (Fin 1),
       volumeToMcapRatio = None, spreadPercentage = Some (Fin 0),
       slippageImpact = Some \<lparr> small = Fin 0, medium = Fin 0, large = Fin 0 \<rparr> \<rparr>"

text \<open>
  \<open>fetchAllDataForSymbol\<close>: the result is \<open>Inl\<close> when the function throws, \<open>Inr\<close> when
  it returns.
\<close>

definition fetchAllDataForSymbol ::
  "World \<Rightarrow> ApiState \<Rightarrow> string \<Rightarrow> (error + NormalizedLiquiditySnapshot) \<times> ApiState" where
  "fetchAllDataForSymbol w st symb =
     (case yahooBranch w st symb of
        (Inr snapshot, st1) \<Rightarrow> (Inr snapshot, st1)
      | (Inl err, st1) \<Rightarrow>
          (case alphaVantageBranch w st1 symb of
             (Inr snapshot, st2) \<Rightarrow> (Inr snapshot, st2)
           | (Inl secondError, st2) \<Rightarrow> (Inr (errorSnapshot w symb), st2)))"

subsection \<open>GET /api/market/comparison\<close>

record ComparisonRow =
  row_symbol :: string
  currentPrice :: number
  row_liquidityScore :: "number option"
  row_bidPrice :: number
  row_askPrice :: number
  row_volume24h :: number
  row_spreadPercentage :: "number option"
  row_marketDepthRatio :: "number option"
  row_slippageImpact :: "SlippageImpact option"

text \<open>
  \<^verbatim>\<open>Array.prototype.sort\<close> with a comparator is stable, and a comparator result that
  is \<open>NaN\<close> counts as 0. The model is the stable insertion sort: an element moves
  behind exactly those elements for which the comparator is positive.
\<close>

fun insert_by :: "('a \<Rightarrow> 'a \<Rightarrow> number) \<Rightarrow> 'a \<Rightarrow> 'a list \<Rightarrow> 'a list" where
  "insert_by cmp x [] = [x]"
| "insert_by cmp x (y # ys) = (if Fin 0 < cmp x y then y # insert_by cmp x ys else x # y # ys)"

definition sort_by :: "('a \<Rightarrow> 'a \<Rightarrow> number) \<Rightarrow> 'a list \<Rightarrow> 'a list" where
  "sort_by cmp xs = foldr (insert_by cmp) xs []"

definition compareScore :: "NormalizedLiquiditySnapshot \<Rightarrow> NormalizedLiquiditySnapshot \<Rightarrow> number" where
  "compareScore a b =
     (let scoreA = or_zero (liquidityScore a); scoreB = or_zero (liquidityScore b)
      in scoreB - scoreA)"

definition comparisonRow :: "NormalizedLiquiditySnapshot \<Rightarrow> ComparisonRow" where
  "comparisonRow snapshot =
     \<lparr> row_symbol = symbol snapshot,
       currentPrice = (bidPrice snapshot + askPrice snapshot) / Fin 2,
       row_liquidityScore = liquidityScore snapshot,
       row_bidPrice = bidPrice snapshot,
       row_askPrice = askPrice snapshot,
       row_volume24h = volume24h snapshot,
       row_spreadPercentage = spreadPercentage snapshot,
       row_marketDepthRatio = marketDepthRatio snapshot,
       row_slippageImpact = slippageImpact snapshot \<rparr>"

text \<open>The loop over the configured symbols: the stored snapshots that are not skipped.\<close>

fun collectSnapshots :: "MemStorage \<Rightarrow> string list \<Rightarrow> NormalizedLiquiditySnapshot list" where
  "collectSnapshots st [] = []"
| "collectSnapshots st (symb # rest) =
     (case getLiquiditySnapshot st symb of
        None \<Rightarrow> collectSnapshots st rest
      | Some snapshot \<Rightarrow>
          if source snapshot = ''error'' then collectSnapshots st rest
          else snapshot # collectSnapshots st rest)"

definition marketComparison :: "MemStorage \<Rightarrow> ComparisonRow list" where
  "marketComparison st =
     (let allSnapshots = collectSnapshots st (getSymbols st);
          sortedSnapshots =
            sort_by compareScore (filter (\<lambda>s. liquidityScore s \<noteq> None) allSnapshots)
      in map comparisonRow sortedSnapshots)"

text \<open>The order of the comparator: the higher score first, a score that is \<open>NaN\<close> or missing counting as 0.\<close>

abbreviation score_desc :: "NormalizedLiquiditySnapshot \<Rightarrow> NormalizedLiquiditySnapshot \<Rightarrow> bool" where
  "score_desc a b \<equiv> or_zero (liquidityScore b) \<le> or_zero (liquidityScore a)"

section \<open>Concrete inputs\<close>

text \<open>The inputs at which the theorems below are instantiated.\<close>

definition sampleTrade :: "nat \<Rightarrow> Trade" where
  "sampleTrade i =
     \<lparr> trade_symbol = ''BTC/USD'', trade_timestamp = int i, trade_price = Fin 1,
       trade_size = Fin 1, isBuyerMaker = False \<rparr>"

definition ethTrade :: Trade where
  "ethTrade =
     \<lparr> trade_symbol = ''ETH/USD'', trade_timestamp = 7, trade_price = Fin 2000,
       trade_size = Fin 1, isBuyerMaker = True \<rparr>"

definition btcSnapshot :: NormalizedLiquiditySnapshot where
  "btcSnapshot =
     \<lparr> symbol = ''BTC/USD'', timestamp = 1000, bidPrice = Fin 49975, askPrice = Fin 50025,
       bidSize = Fin 1, askSize = Fin 1, volume24h = Fin 1000, depthLevels = None,
       source = ''yahoo-finance'', liquidityScore = Some (Fin 62), marketDepthRatio = Some (Fin 1),
       volumeToMcapRatio = None, spreadPercentage = Some (Fin 0.1), slippageImpact = None \<rparr>"

definition ethSnapshot :: NormalizedLiquiditySnapshot where
  "ethSnapshot =
     \<lparr> symbol = ''ETH/USD'', timestamp = 1000, bidPrice = Fin 1998, askPrice = Fin 2002,
       bidSize = Fin 1, askSize = Fin 2, volume24h = Fin 500, depthLevels = None,
       source = ''alphavantage-daily'', liquidityScore = Some (Fin 71), marketDepthRatio = Some (Fin 0.5),
       volumeToMcapRatio = None, spreadPercentage = Some (Fin 0.2), slippageImpact = None \<rparr>"

definition sampleStore :: MemStorage where
  "sampleStore = saveLiquiditySnapshot (saveTrade newMemStorage (sampleTrade 0)) btcSnapshot"

definition sampleKey :: string where
  "sampleKey = ''alphavantage-daily-BTC/USD''"

definition sampleUrl :: string where
  "sampleUrl = ''https://www.alphavantage.co/query?function=DIGITAL_CURRENCY_DAILY&symbol=BTC&market=USD&apikey=demo''"

definition sampleCache :: "string \<rightharpoonup> av_body CacheEntry" where
  "sampleCache = Map.empty(sampleKey \<mapsto> \<lparr> entry_data = Body None, entry_timestamp = 1000 \<rparr>)"

definition axiosUp :: "string \<Rightarrow> error + av_body" where
  "axiosUp url = Inr (Body (Some []))"

definition axiosDown :: "string \<Rightarrow> error + av_body" where
  "axiosDown url = Inl (Rejected ''AxiosError'')"

definition initialState :: ApiState where
  "initialState = \<lparr> apiCache = Map.empty, yahooCache = Map.empty, drawn = 0, quoted = 0,
     fetched = [], calls = [] \<rparr>"

definition btcQuote :: YahooQuote where
  "btcQuote = \<lparr> regularMarketPrice = Some (Fin 50000), regularMarketVolume = Some (Fin 1000000),
       marketCap = Some (Fin 1000000000) \<rparr>"

definition ethPoint :: daily_point where
  "ethPoint = [(''4a. close (USD)'', Fin 2000), (''5. volume'', Fin 500)]"

text \<open>Both providers down.\<close>

definition downWorld :: World where
  "downWorld = \<lparr> now = 1000, random = (\<lambda>k. 1 / 2),
     yahooFinance_quote = (\<lambda>n s. QuoteRejected (Rejected ''FetchError'')),
     axios_get = axiosDown, ALPHA_VANTAGE_API_KEY = ''demo'' \<rparr>"

text \<open>Yahoo Finance answers with a price of 50000.\<close>

definition upWorld :: World where
  "upWorld = \<lparr> now = 1000, random = (\<lambda>k. 1 / 2),
     yahooFinance_quote = (\<lambda>n s. QuoteResolved (Some btcQuote)),
     axios_get = axiosDown, ALPHA_VANTAGE_API_KEY = ''demo'' \<rparr>"

text \<open>Yahoo Finance throws; Alpha Vantage answers with a close of 2000 and a volume of 500.\<close>

definition fallbackWorld :: World where
  "fallbackWorld = \<lparr> now = 1000, random = (\<lambda>k. 1 / 2),
     yahooFinance_quote = (\<lambda>n s. QuoteRejected (Rejected ''FetchError'')),
     axios_get = (\<lambda>url. Inr (Body (Some [(''2024-01-01'', Some ethPoint)]))),
     ALPHA_VANTAGE_API_KEY = ''demo'' \<rparr>"

text \<open>Yahoo Finance throws; the Alpha Vantage response has no daily time series.\<close>

definition noDataWorld :: World where
  "noDataWorld = \<lparr> now = 1000, random = (\<lambda>k. 1 / 2),
     yahooFinance_quote = (\<lambda>n s. QuoteRejected (Rejected ''FetchError'')),
     axios_get = (\<lambda>url. Inr (Body None)), ALPHA_VANTAGE_API_KEY = ''demo'' \<rparr>"

text \<open>Yahoo Finance answers with a quote that has no price and no volume.\<close>

definition noPriceWorld :: World where
  "noPriceWorld = \<lparr> now = 1000, random = (\<lambda>k. 1 / 2),
     yahooFinance_quote = (\<lambda>n s. QuoteResolved (Some \<lparr> regularMarketPrice = None,
        regularMarketVolume = None, marketCap = None \<rparr>)),
     axios_get = axiosDown, ALPHA_VANTAGE_API_KEY = ''demo'' \<rparr>"

definition noPriceSnapshot :: NormalizedLiquiditySnapshot where
  "noPriceSnapshot =
     \<lparr> symbol = ''BTC/USD'', timestamp = 1000, bidPrice = Fin 0, askPrice = Fin 0,
       bidSize = Fin 0, askSize = Fin 0, volume24h = Fin 0, depthLevels = None,
       source = ''yahoo-finance'', liquidityScore = None, marketDepthRatio = None,
       volumeToMcapRatio = None, spreadPercentage = None, slippageImpact = None \<rparr>"

text \<open>A store with two scored snapshots and an error snapshot.\<close>

definition ltcErrorSnapshot :: NormalizedLiquiditySnapshot where
  "ltcErrorSnapshot =
     \<lparr> symbol = ''LTC/USD'', timestamp = 1000, bidPrice = Fin 0, askPrice = Fin 0,
       bidSize = Fin 0, askSize = Fin 0, volume24h = Fin 0, depthLevels = None,
       source = ''error'', liquidityScore = Some (Fin 0), marketDepthRatio = Some (Fin 1),
       volumeToMcapRatio = None, spreadPercentage = Some (Fin 0),
       slippageImpact = Some \<lparr> small = Fin 0, medium = Fin 0, large = Fin 0 \<rparr> \<rparr>"

definition comparisonStore :: MemStorage where
  "comparisonStore =
     saveLiquiditySnapshot (saveLiquiditySnapshot (saveLiquiditySnapshot newMemStorage btcSnapshot)
       ethSnapshot) ltcErrorSnapshot"

section \<open>Arithmetic of numbers\<close>

lemma threshold_ge: "(2::real) ^ 1023 \<le> overflow_threshold"
proof -
  have "(2::real) ^ 1024 = 2 ^ 1023 + 2 ^ 1023" by simp
  moreover have "(2::real) ^ 970 \<le> 2 ^ 1023" by (rule power_increasing) simp_all
  ultimately show ?thesis unfolding overflow_threshold_def by linarith
qed

lemma threshold_le: "overflow_threshold \<le> (2::real) ^ 1024"
  unfolding overflow_threshold_def by simp

lemma small_lt_threshold: "(1000000000000::real) < overflow_threshold"
proof -
  have "(1000000000000::real) < 2 ^ 40" by simp
  also have "(2::real) ^ 40 \<le> 2 ^ 1023" by (rule power_increasing) simp_all
  finally show ?thesis using threshold_ge by linarith
qed

lemma threshold_pos: "0 < overflow_threshold"
  using small_lt_threshold by linarith

lemma min_normal_pos: "0 < min_normal"
  by (simp add: min_normal_def)

lemma min_normal_le_one: "min_normal \<le> 1"
  by (simp add: min_normal_def)

lemma ovf_Fin: "\<bar>r\<bar> < overflow_threshold \<Longrightarrow> ovf r = Fin r"
  unfolding ovf_def by (auto simp: abs_if split: if_splits)

text \<open>For evaluation at concrete inputs: a small result does not overflow.\<close>

lemma ovf_small: "\<bar>r\<bar> \<le> 1000000000000 \<Longrightarrow> ovf r = Fin r"
  using small_lt_threshold by (intro ovf_Fin) linarith

lemma ovf_NegInf: "r \<le> - (2 ^ 1024) \<Longrightarrow> ovf r = NegInf"
  using threshold_le threshold_pos unfolding ovf_def by (auto split: if_splits)

lemma ovf_PosInf: "2 ^ 1024 \<le> r \<Longrightarrow> ovf r = PosInf"
  using threshold_le unfolding ovf_def by auto

lemma times_number_commute: "(x::number) * y = y * x"
  by (cases x; cases y) (simp_all add: mult.commute)

lemma ovf_cases: "ovf r = PosInf \<and> overflow_threshold \<le> r \<or> ovf r = NegInf \<and> r \<le> - overflow_threshold
    \<or> ovf r = Fin r \<and> \<bar>r\<bar> < overflow_threshold"
  using threshold_pos unfolding ovf_def by (auto simp: abs_if)

lemma ovf_pos: "0 < r \<Longrightarrow> Fin 0 < ovf r"
  using ovf_cases [of r] threshold_pos by auto

lemma ovf_mono: "r \<le> s \<Longrightarrow> ovf r \<le> ovf s"
  using ovf_cases [of r] ovf_cases [of s] threshold_pos by auto

lemma scale_pos: "Fin 0 < p \<Longrightarrow> 0 < c \<Longrightarrow> Fin 0 < p * Fin c"
  by (cases p) (simp_all add: ovf_pos)

lemma scale_mono: "Fin 0 < p \<Longrightarrow> 0 < c \<Longrightarrow> c \<le> d \<Longrightarrow> p * Fin c \<le> p * Fin d"
  by (cases p) (auto simp: ovf_mono)

text \<open>Scaling by a factor, in the exact arithmetic of the model.\<close>

lemma scale_down: "0 < a \<Longrightarrow> a < overflow_threshold \<Longrightarrow> 0 < c \<Longrightarrow> c < 1 \<Longrightarrow> Fin a * Fin c < Fin a"
proof -
  assume a: "0 < a" "a < overflow_threshold" and c: "0 < c" "c < 1"
  have "a * c < a" using a c by simp
  moreover have "0 < a * c" using a c by simp
  ultimately have "\<bar>a * c\<bar> < overflow_threshold" using a by linarith
  then have "ovf (a * c) = Fin (a * c)" by (rule ovf_Fin)
  then show ?thesis using \<open>a * c < a\<close> by simp
qed

lemma scale_up: "0 < a \<Longrightarrow> a < overflow_threshold \<Longrightarrow> 1 < c \<Longrightarrow> Fin a < Fin a * Fin c"
proof -
  assume a: "0 < a" "a < overflow_threshold" and c: "1 < c"
  have pos: "0 < a * c" using a c by simp
  have "\<not> a * c \<le> - overflow_threshold" using pos threshold_pos by linarith
  then have "ovf (a * c) = PosInf \<or> ovf (a * c) = Fin (a * c)"
    using ovf_cases [of "a * c"] by blast
  then show ?thesis using a c by (elim disjE) simp_all
qed

text \<open>The order of the numbers other than \<open>NaN\<close>.\<close>

lemma or_zero_not_NaN: "or_zero v \<noteq> NaN"
  by (auto simp: or_zero_def truthy_def split: option.splits)

lemma less_imp_le_number: "(x::number) < y \<Longrightarrow> x \<le> y"
  by (cases x; cases y) simp_all

lemma not_less_number: "x \<noteq> NaN \<Longrightarrow> y \<noteq> NaN \<Longrightarrow> (\<not> (x::number) < y) = (y \<le> x)"
  by (cases x; cases y) auto

lemma le_trans_number: "(x::number) \<le> y \<Longrightarrow> y \<le> z \<Longrightarrow> x \<le> z"
  by (cases x; cases y; cases z) simp_all

lemma ovf_pos_iff: "(Fin 0 < ovf r) = (0 < r)"
  using ovf_cases [of r] threshold_pos by auto

lemma minus_pos_iff: "x \<noteq> NaN \<Longrightarrow> y \<noteq> NaN \<Longrightarrow> (Fin 0 < y - x) = (x < y)"
  by (cases x; cases y) (simp_all add: minus_number_def ovf_pos_iff)

text \<open>Bounds that survive the operations.\<close>

lemma ovf_nonneg: "0 \<le> r \<Longrightarrow> Fin 0 \<le> ovf r"
  using ovf_cases [of r] threshold_pos by auto

lemma ovf_le: "r \<le> c \<Longrightarrow> c < overflow_threshold \<Longrightarrow> ovf r \<le> Fin c"
  using ovf_cases [of r] by auto

lemma nonneg_scale: "Fin 0 \<le> x \<Longrightarrow> 0 < c \<Longrightarrow> Fin 0 \<le> x * Fin c"
  by (cases x) (simp_all add: ovf_nonneg)

lemma nonneg_abs: "x \<noteq> NaN \<Longrightarrow> Fin 0 \<le> \<bar>x\<bar>"
  by (cases x) simp_all

lemma le_Fin_not_NaN: "x \<le> Fin c \<Longrightarrow> x \<noteq> NaN"
  by (cases x) simp_all

lemma ge_Fin_not_NaN: "Fin c \<le> x \<Longrightarrow> x \<noteq> NaN"
  by (cases x) simp_all

lemma sub_nonneg_le: "Fin 0 \<le> y \<Longrightarrow> c < overflow_threshold \<Longrightarrow> Fin c - y \<le> Fin c"
  by (cases y) (simp_all add: minus_number_def ovf_le)


lemma Math_min_le: "w \<noteq> NaN \<Longrightarrow> Math_min (Fin c) w \<le> Fin c"
  by (cases w) (auto simp: Math_min_def)

lemma Math_max_clamp:
  "z \<le> Fin c \<Longrightarrow> 0 \<le> c \<Longrightarrow> \<exists>r. Math_max (Fin 0) z = Fin r \<and> 0 \<le> r \<and> r \<le> c"
  by (cases z) (auto simp: Math_max_def)


lemma small_numbers:
  "(100::real) < overflow_threshold" "(80::real) < overflow_threshold"
  "(40::real) < overflow_threshold" "(20::real) < overflow_threshold"
  using small_lt_threshold by simp_all

lemma Math_log10_not_NaN: "0 \<le> v \<Longrightarrow> Math_log10 (Fin v) \<noteq> NaN"
  by simp

lemma scale_not_NaN: "x \<noteq> NaN \<Longrightarrow> c \<noteq> 0 \<Longrightarrow> x * Fin c \<noteq> NaN"
  using ovf_cases [of "r * c" for r] by (cases x) (auto simp: ovf_def)

section \<open>Properties of the symbol store\<close>

lemma saveTrades_snoc: "saveTrades st (ts @ [t]) = saveTrade (saveTrades st ts) t"
  by (simp add: saveTrades_def)

lemma saved_for_snoc:
  "saved_for s (ts @ [t]) = (if trade_symbol t = s then t # saved_for s ts else saved_for s ts)"
  by (simp add: saved_for_def)

lemma take_100_Cons_take: "take 100 (x # take 100 xs) = take 100 (x # xs)"
  by (simp add: take_Cons')

text \<open>
  After any sequence of saves into a new store, the list retained for a symbol is the
  newest hundred of the trades saved for it (and the symbol is absent from the map as
  long as nothing was saved for it).
\<close>

lemma tradeHistory_saveTrades_new:
  "tradeHistory (saveTrades newMemStorage ts) s =
     (if saved_for s ts = [] then None else Some (take 100 (saved_for s ts)))"
proof (induction ts rule: rev_induct)
  case Nil
  show ?case by (simp add: saveTrades_def newMemStorage_def saved_for_def)
next
  case (snoc t ts)
  show ?case
  proof (cases "trade_symbol t = s")
    case True
    then show ?thesis
      using snoc.IH
      by (simp add: saveTrades_snoc saved_for_snoc saveTrade_def Let_def take_100_Cons_take
          del: take_Suc_Cons)
  next
    case False
    then show ?thesis
      using snoc.IH by (simp add: saveTrades_snoc saved_for_snoc saveTrade_def Let_def)
  qed
qed

text \<open>
  C7. After any sequence of \<open>saveTrade\<close> calls on a new store, \<open>getRecentTrades\<close> with a
  limit \<open>limit \<ge> 0\<close> returns the \<open>min(limit, 100, number saved)\<close> most recent trades
  saved for the symbol, newest first.
\<close>

theorem getRecentTrades_after_saveTrades:
  assumes "0 \<le> limit"
  shows "getRecentTrades (saveTrades newMemStorage ts) symb limit =
         take (min (nat limit) (min 100 (length (saved_for symb ts)))) (saved_for symb ts)"
  using assms
  by (simp add: getRecentTrades_def tradeHistory_saveTrades_new slice0_def Let_def min_def)

lemma inj_sampleTrade: "inj sampleTrade"
proof (rule injI)
  fix i j assume "sampleTrade i = sampleTrade j"
  then have "trade_timestamp (sampleTrade i) = trade_timestamp (sampleTrade j)" by simp
  then show "i = j" by (simp add: sampleTrade_def)
qed

text \<open>
  The scenario of the specification: 150 trades saved for one symbol, limit 200. The
  result is the trades number 149 down to 50, a hundred pairwise distinct trades.
\<close>

theorem getRecentTrades_after_saveTrades_witness:
  "(0::int) \<le> 200 \<and>
   getRecentTrades (saveTrades newMemStorage (map sampleTrade [0..<150])) ''BTC/USD'' 200 =
     map sampleTrade (rev [50..<150]) \<and>
   length (getRecentTrades (saveTrades newMemStorage (map sampleTrade [0..<150])) ''BTC/USD'' 200) = 100 \<and>
   distinct (getRecentTrades (saveTrades newMemStorage (map sampleTrade [0..<150])) ''BTC/USD'' 200)"
proof -
  have eq: "getRecentTrades (saveTrades newMemStorage (map sampleTrade [0..<150])) ''BTC/USD'' 200 =
      map sampleTrade (rev [50..<150])"
    using getRecentTrades_after_saveTrades [of 200 "map sampleTrade [0..<150]" "''BTC/USD''"]
    by (simp add: saved_for_def filter_map o_def sampleTrade_def rev_map take_map take_rev
        del: upt_Suc)
  have dist: "distinct (map sampleTrade (rev [50..<150]))"
    unfolding distinct_map
    by (intro conjI inj_on_subset [OF inj_sampleTrade]) (simp_all only: distinct_rev distinct_upt subset_UNIV)
  have len: "length (map sampleTrade (rev [50..<150])) = 100"
    by (simp only: length_map length_rev length_upt)
  have z: "(0::int) \<le> 200" by simp
  show ?thesis by (intro conjI z eq) (simp_all only: eq len dist)
qed

text \<open>
  C10. A write touches its own symbol only: saving a trade for \<open>t\<close> leaves the recent
  trades of every other symbol \<open>s\<close> as they were, saving a snapshot for \<open>t\<close> leaves the
  snapshot of every other symbol as it was, and neither write changes the other map
  (nor the configured symbols).
\<close>

theorem store_writes_confined:
  assumes "s \<noteq> t" and "trade_symbol trade = t" and "symbol snapshot = t"
  shows "getRecentTrades (saveTrade st trade) s limit = getRecentTrades st s limit \<and>
         getLiquiditySnapshot (saveLiquiditySnapshot st snapshot) s = getLiquiditySnapshot st s \<and>
         liquiditySnapshots (saveTrade st trade) = liquiditySnapshots st \<and>
         tradeHistory (saveLiquiditySnapshot st snapshot) = tradeHistory st \<and>
         getSymbols (saveTrade st trade) = getSymbols st \<and>
         getSymbols (saveLiquiditySnapshot st snapshot) = getSymbols st"
  using assms
  by (simp add: getRecentTrades_def saveTrade_def saveLiquiditySnapshot_def
      getLiquiditySnapshot_def getSymbols_def Let_def)

text \<open>
  A store with a trade and a snapshot for \<open>BTC/USD\<close>: a trade and a snapshot saved for
  \<open>ETH/USD\<close> leave both in place.
\<close>

theorem store_writes_confined_witness:
  "''BTC/USD'' \<noteq> ''ETH/USD'' \<and> trade_symbol ethTrade = ''ETH/USD'' \<and>
   symbol ethSnapshot = ''ETH/USD'' \<and>
   getRecentTrades (saveTrade sampleStore ethTrade) ''BTC/USD'' 50 = [sampleTrade 0] \<and>
   getRecentTrades sampleStore ''BTC/USD'' 50 = [sampleTrade 0] \<and>
   getLiquiditySnapshot (saveLiquiditySnapshot sampleStore ethSnapshot) ''BTC/USD'' = Some btcSnapshot \<and>
   getLiquiditySnapshot sampleStore ''BTC/USD'' = Some btcSnapshot \<and>
   liquiditySnapshots (saveTrade sampleStore ethTrade) = liquiditySnapshots sampleStore \<and>
   tradeHistory (saveLiquiditySnapshot sampleStore ethSnapshot) = tradeHistory sampleStore"
proof -
  have a: "''BTC/USD'' \<noteq> ''ETH/USD''" by simp
  have b: "trade_symbol ethTrade = ''ETH/USD''" by (simp add: ethTrade_def)
  have c: "symbol ethSnapshot = ''ETH/USD''" by (simp add: ethSnapshot_def)
  have d: "getRecentTrades sampleStore ''BTC/USD'' 50 = [sampleTrade 0]"
    by (simp add: sampleStore_def getRecentTrades_def saveLiquiditySnapshot_def saveTrade_def
        newMemStorage_def slice0_def Let_def sampleTrade_def)
  have e: "getLiquiditySnapshot sampleStore ''BTC/USD'' = Some btcSnapshot"
    by (simp add: sampleStore_def getLiquiditySnapshot_def saveLiquiditySnapshot_def btcSnapshot_def)
  from store_writes_confined [OF a b c, of sampleStore 50] d e a b c
  show ?thesis by simp
qed

section \<open>Properties of the request cache\<close>

text \<open>
  C6. With a cached entry younger than the time to live, \<open>getCachedOrFetch\<close> returns the
  cached payload, requests nothing and leaves the cache as it is. Otherwise it requests
  the URL once; a response is stored under the key with the current time and returned;
  a failure is thrown on and the cache stays as it was. A call without a time to live
  behaves as one with 5000 ms.
\<close>

theorem getCachedOrFetch_contract:
  "(\<forall>c. cache key = Some c \<and> now_ms - entry_timestamp c < ttlMs \<longrightarrow>
       getCachedOrFetch get now_ms cache url key (Some ttlMs) = (Inr (entry_data c), cache, [])) \<and>
   ((\<forall>c. cache key = Some c \<longrightarrow> \<not> now_ms - entry_timestamp c < ttlMs) \<longrightarrow>
       (\<forall>payload. get url = Inr payload \<longrightarrow>
          getCachedOrFetch get now_ms cache url key (Some ttlMs) =
            (Inr payload, cache(key \<mapsto> \<lparr> entry_data = payload, entry_timestamp = now_ms \<rparr>), [url])) \<and>
       (\<forall>err. get url = Inl err \<longrightarrow>
          getCachedOrFetch get now_ms cache url key (Some ttlMs) = (Inl err, cache, [url]))) \<and>
   getCachedOrFetch get now_ms cache url key None = getCachedOrFetch get now_ms cache url key (Some 5000)"
  by (auto simp: getCachedOrFetch_def Let_def split: option.splits sum.splits)

text \<open>
  An entry stored at time 1000 with a time to live of 5000 ms: a call at 3000 is served
  from the cache, a call at 7000 requests the URL, and a failed request at 7000 leaves
  the old entry in place.
\<close>

theorem getCachedOrFetch_contract_witness:
  "sampleCache sampleKey = Some \<lparr> entry_data = Body None, entry_timestamp = 1000 \<rparr> \<and>
   (3000::int) - 1000 < 5000 \<and>
   getCachedOrFetch axiosUp 3000 sampleCache sampleUrl sampleKey (Some 5000) =
     (Inr (Body None), sampleCache, []) \<and>
   \<not> (7000::int) - 1000 < 5000 \<and>
   getCachedOrFetch axiosUp 7000 sampleCache sampleUrl sampleKey (Some 5000) =
     (Inr (Body (Some [])),
      sampleCache(sampleKey \<mapsto> \<lparr> entry_data = Body (Some []), entry_timestamp = 7000 \<rparr>),
      [sampleUrl]) \<and>
   getCachedOrFetch axiosDown 7000 sampleCache sampleUrl sampleKey (Some 5000) =
     (Inl (Rejected ''AxiosError''), sampleCache, [sampleUrl])"
proof -
  have stored: "sampleCache sampleKey = Some \<lparr> entry_data = Body None, entry_timestamp = 1000 \<rparr>"
    by (simp add: sampleCache_def)
  have hit: "getCachedOrFetch axiosUp 3000 sampleCache sampleUrl sampleKey (Some 5000) =
      (Inr (Body None), sampleCache, [])"
    using getCachedOrFetch_contract [of sampleCache sampleKey 3000 5000 axiosUp sampleUrl] stored
    by simp
  have miss: "getCachedOrFetch axiosUp 7000 sampleCache sampleUrl sampleKey (Some 5000) =
      (Inr (Body (Some [])),
       sampleCache(sampleKey \<mapsto> \<lparr> entry_data = Body (Some []), entry_timestamp = 7000 \<rparr>),
       [sampleUrl])"
    using getCachedOrFetch_contract [of sampleCache sampleKey 7000 5000 axiosUp sampleUrl] stored
    by (simp add: axiosUp_def)
  have fail: "getCachedOrFetch axiosDown 7000 sampleCache sampleUrl sampleKey (Some 5000) =
      (Inl (Rejected ''AxiosError''), sampleCache, [sampleUrl])"
    using getCachedOrFetch_contract [of sampleCache sampleKey 7000 5000 axiosDown sampleUrl] stored
    by (simp add: axiosDown_def)
  show ?thesis using stored hit miss fail by simp
qed

section \<open>Properties of the liquidity metrics\<close>

text \<open>
  C5. Without depth levels, the slippage impact is 0.5, 1.5 and 3 times the spread
  percentage that the same call returns.
\<close>

theorem slippage_without_depth_levels:
  "m_slippageImpact (calculateLiquidityMetrics prc bid ask bsize asize volume mcap None) =
     \<lparr> small = Fin 0.5 * m_spreadPercentage (calculateLiquidityMetrics prc bid ask bsize asize volume mcap None),
       medium = Fin 1.5 * m_spreadPercentage (calculateLiquidityMetrics prc bid ask bsize asize volume mcap None),
       large = Fin 3 * m_spreadPercentage (calculateLiquidityMetrics prc bid ask bsize asize volume mcap None) \<rparr>"
  by (simp add: calculateLiquidityMetrics_def Let_def times_number_commute)

text \<open>
  At a price of 50005, a bid of 50000 and an ask of 50010 the spread is 200/10001 per
  cent, and the three estimates are 100/10001, 300/10001 and 600/10001.
\<close>

theorem slippage_without_depth_levels_witness:
  "m_slippageImpact
     (calculateLiquidityMetrics (Fin 50005) (Fin 50000) (Fin 50010) (Fin 1) (Fin 1) (Fin 1000000)
        None None) =
   \<lparr> small = Fin (100 / 10001), medium = Fin (300 / 10001), large = Fin (600 / 10001) \<rparr>"
proof -
  have sp: "m_spreadPercentage
     (calculateLiquidityMetrics (Fin 50005) (Fin 50000) (Fin 50010) (Fin 1) (Fin 1) (Fin 1000000)
        None None) = Fin (200 / 10001)"
    by (simp add: calculateLiquidityMetrics_def Let_def minus_number_def ovf_small)
  show ?thesis
    using slippage_without_depth_levels [of "Fin 50005" "Fin 50000" "Fin 50010" "Fin 1" "Fin 1"
        "Fin 1000000" None]
    unfolding sp by (simp add: ovf_small)
qed

text \<open>With depth levels of which one side is empty, the same estimate applies.\<close>

lemma slippage_fallback_empty_levels:
  "bids lv = [] \<or> asks lv = [] \<Longrightarrow>
   m_slippageImpact (calculateLiquidityMetrics prc bid ask bsize asize volume mcap (Some lv)) =
   m_slippageImpact (calculateLiquidityMetrics prc bid ask bsize asize volume mcap None)"
  by (auto simp: calculateLiquidityMetrics_def Let_def)

text \<open>
  The scenario of the specification (bid 50000, ask 50010, price 50005, both sizes 1),
  with a volume of \<open>10^6\<close> and a market cap of \<open>10^9\<close>: the spread is 200/10001 per cent
  (about 0.02), the depth ratio is 1 and the score is 98.
\<close>

lemma calculateLiquidityMetrics_scenario:
  "calculateLiquidityMetrics (Fin 50005) (Fin 50000) (Fin 50010) (Fin 1) (Fin 1) (Fin 1000000)
     (Some (Fin 1000000000)) None =
   \<lparr> m_liquidityScore = Fin 98, m_marketDepthRatio = Fin 1, m_volumeToMcapRatio = Some (Fin 0.1),
     m_spreadPercentage = Fin (200 / 10001),
     m_slippageImpact = \<lparr> small = Fin (100 / 10001), medium = Fin (300 / 10001),
                          large = Fin (600 / 10001) \<rparr> \<rparr>"
  by (simp add: calculateLiquidityMetrics_def Let_def minus_number_def ovf_small Math_max_def
      Math_min_def truthy_def)

text \<open>
  The three components of the score, for finite, non-negative inputs whose ask price is
  not below the bid price: the spread component lies between 0 and 40, the volume
  component is at most 40 and the depth component at most 20 (either may be
  \<open>-Infinity\<close>), and none is \<open>NaN\<close>.
\<close>

lemma score_components:
  assumes p: "0 \<le> p" and b: "0 \<le> b" "b \<le> a" "a < overflow_threshold"
    and s: "0 \<le> s1" "0 \<le> s2" and v: "0 \<le> v"
    and c: "mcap = None \<or> (\<exists>cap. mcap = Some (Fin cap) \<and> 0 \<le> cap)"
  obtains x vs ds where
    "m_liquidityScore (calculateLiquidityMetrics (Fin p) (Fin b) (Fin a) (Fin s1) (Fin s2) (Fin v) mcap levels)
      = Math_round (Math_max (Fin 0) (Math_min (Fin 100) (Fin x + vs + ds)))"
    "0 \<le> x" "x \<le> 40" "vs \<le> Fin 40" "ds \<le> Fin 20"
    "mcap = None \<Longrightarrow> vs = Math_min (Fin 40) (Math_log10 (Fin v) * Fin 4)"
proof -
  define spreadPct where "spreadPct = (if Fin 0 < Fin p then ((Fin a - Fin b) / Fin p) * Fin 100 else Fin 0)"
  define depthRatio where "depthRatio = (if Fin 0 < Fin s2 then Fin s1 / Fin s2 else Fin 1)"
  define volumeScore where "volumeScore =
            (case mcap of
               None \<Rightarrow> Math_min (Fin 40) (Math_log10 (Fin v) * Fin 4)
             | Some cap \<Rightarrow>
                 if truthy cap \<and> Fin 0 < cap then Math_min (Fin 40) ((Fin v / cap) * Fin 40000)
                 else Math_min (Fin 40) (Math_log10 (Fin v) * Fin 4))"
  define spreadScore where "spreadScore = Math_max (Fin 0) (Fin 40 - spreadPct * Fin 100)"
  define depthBalanceScore where "depthBalanceScore = Fin 20 - \<bar>Fin 1 - depthRatio\<bar> * Fin 10"
  have score: "m_liquidityScore (calculateLiquidityMetrics (Fin p) (Fin b) (Fin a) (Fin s1) (Fin s2) (Fin v) mcap levels)
      = Math_round (Math_max (Fin 0) (Math_min (Fin 100) (spreadScore + volumeScore + depthBalanceScore)))"
    by (simp add: calculateLiquidityMetrics_def Let_def spreadPct_def depthRatio_def volumeScore_def
        spreadScore_def depthBalanceScore_def)
  have "\<bar>a - b\<bar> < overflow_threshold" using b by linarith
  then have spread: "Fin a - Fin b = Fin (a - b)"
    by (simp add: minus_number_def ovf_Fin)
  have sp: "Fin 0 \<le> spreadPct"
    using b by (simp add: spreadPct_def spread nonneg_scale ovf_nonneg)
  have "Fin 40 - spreadPct * Fin 100 \<le> Fin 40"
    by (intro sub_nonneg_le nonneg_scale sp small_numbers) simp
  then obtain x where x: "spreadScore = Fin x" "0 \<le> x" "x \<le> 40"
    unfolding spreadScore_def using Math_max_clamp [of _ 40] by fastforce
  have lg: "Math_log10 (Fin v) * Fin 4 \<noteq> NaN"
    using v by (intro scale_not_NaN Math_log10_not_NaN) simp_all
  have vs: "volumeScore \<le> Fin 40"
  proof (cases mcap)
    case None
    then show ?thesis using lg by (simp add: volumeScore_def Math_min_le)
  next
    case (Some cap')
    then obtain cap where cap: "cap' = Fin cap" "0 \<le> cap" using c by auto
    show ?thesis
    proof (cases "0 < cap")
      case True
      have "Fin 0 \<le> (Fin v / Fin cap) * Fin 40000"
        using True v by (intro nonneg_scale) (simp_all add: ovf_nonneg)
      then have "(Fin v / Fin cap) * Fin 40000 \<noteq> NaN" by (rule ge_Fin_not_NaN)
      then show ?thesis using Some cap True by (simp add: volumeScore_def Math_min_le truthy_def)
    next
      case False
      then show ?thesis using Some cap lg by (simp add: volumeScore_def Math_min_le truthy_def)
    qed
  qed
  have dr: "Fin 0 \<le> depthRatio"
    using s by (simp add: depthRatio_def ovf_nonneg)
  have "Fin 1 - depthRatio \<le> Fin 1"
    using dr small_lt_threshold by (intro sub_nonneg_le) simp_all
  then have "Fin 1 - depthRatio \<noteq> NaN" by (rule le_Fin_not_NaN)
  then have "Fin 0 \<le> \<bar>Fin 1 - depthRatio\<bar> * Fin 10"
    by (intro nonneg_scale nonneg_abs) simp_all
  then have ds: "depthBalanceScore \<le> Fin 20"
    unfolding depthBalanceScore_def by (intro sub_nonneg_le small_numbers)
  have none: "mcap = None \<Longrightarrow> volumeScore = Math_min (Fin 40) (Math_log10 (Fin v) * Fin 4)"
    by (simp add: volumeScore_def)
  show thesis
    using that [of x volumeScore depthBalanceScore] score x vs ds none by simp
qed

text \<open>
  The quotes that reach \<open>calculateLiquidityMetrics\<close>. The function is private to the
  module and is called from the two branches of \<open>fetchAllDataForSymbol\<close> only, with
  the bid and the ask price of an adapter's snapshot: a reference price times
  \<open>1 - f\<close> and times \<open>1 + f\<close> (in the placeholder, both 0). Such a quote, when
  its bid price is not negative, is not crossed.
\<close>

lemma quote_not_crossed:
  assumes "Fin 0 \<le> p * Fin c" "0 < c" "c \<le> d"
  shows "p * Fin c \<le> p * Fin d"
proof (cases p)
  case (Fin a)
  have "0 \<le> a * c"
    using assms(1) ovf_cases [of "a * c"] threshold_pos unfolding Fin by auto
  then have "0 \<le> a" using assms(2) by (simp add: zero_le_mult_iff)
  then have "a * c \<le> a * d" using assms(3) by (simp add: mult_left_mono)
  then show ?thesis unfolding Fin by (simp add: ovf_mono)
qed (use assms in auto)



text \<open>
  With a volume of 0 and no market cap, \<open>log10(0) = -Infinity\<close> makes the sum
  \<open>-Infinity\<close> and the clamp makes the score 0, whatever the spread and the depth.
\<close>

lemma liquidityScore_zero_volume:
  assumes "0 \<le> p" "0 \<le> b" "b \<le> a" "a < overflow_threshold" "0 \<le> s1" "0 \<le> s2"
  shows "m_liquidityScore (calculateLiquidityMetrics (Fin p) (Fin b) (Fin a) (Fin s1) (Fin s2) (Fin 0) None levels)
            = Fin 0"
proof -
  have v: "(0::real) \<le> 0" by simp
  have c: "(None::number option) = None \<or> (\<exists>cap. (None::number option) = Some (Fin cap) \<and> 0 \<le> cap)" by simp
  obtain x vs ds where sc:
    "m_liquidityScore (calculateLiquidityMetrics (Fin p) (Fin b) (Fin a) (Fin s1) (Fin s2) (Fin 0) None levels)
      = Math_round (Math_max (Fin 0) (Math_min (Fin 100) (Fin x + vs + ds)))"
    "ds \<le> Fin 20" "vs = Math_min (Fin 40) (Math_log10 (Fin 0) * Fin 4)"
    using score_components [OF assms v c, of levels] by metis
  have "vs = NegInf" using sc(3) by (simp add: Math_min_def)
  moreover have "Fin x + NegInf + ds = NegInf" using sc(2) by (cases ds) simp_all
  ultimately show ?thesis using sc(1) by (simp add: Math_min_def Math_max_def)
qed

text \<open>
  Why the ask price must not be below the bid price. At a price of \<open>2^-1000\<close>, a bid
  of \<open>2^30\<close>, an ask of 0, both sizes 1, a volume of 0, no market cap and no depth
  levels, the spread percentage overflows to \<open>-Infinity\<close>, the spread component is
  \<open>+Infinity\<close>, the volume component is \<open>-Infinity\<close>, and their sum \<open>NaN\<close> passes
  the clamp and the rounding. Neither call of the function passes a crossed quote
  with a bid price that is not negative (lemma \<open>quote_not_crossed\<close>).
\<close>

lemma liquidityScore_NaN_on_crossed_quote:
  "m_liquidityScore
     (calculateLiquidityMetrics (Fin (1 / 2 ^ 1000)) (Fin (2 ^ 30)) (Fin 0) (Fin 1) (Fin 1) (Fin 0)
        None None) = NaN"
  by (simp add: calculateLiquidityMetrics_def Let_def minus_number_def ovf_small ovf_NegInf
      Math_max_def Math_min_def)

section \<open>Properties of the order-book synthesizer\<close>

text \<open>
  C4, at the input bid 100, ask 101, both sizes 1, when \<^verbatim>\<open>Math.random()\<close> returns 0:
  the first bid level is priced at the bid price itself and the first ask level at the
  ask price itself, neither strictly beyond it.
\<close>

theorem first_level_at_zero_draw:
  "fst (generateOrderBookData (Fin 100) (Fin 101) (Fin 1) (Fin 1) (\<lambda>k. 0)) ! 0 = (Fin 100, Fin 0.8) \<and>
   snd (generateOrderBookData (Fin 100) (Fin 101) (Fin 1) (Fin 1) (\<lambda>k. 0)) ! 0 = (Fin 101, Fin 0.8) \<and>
   \<not> Fin 100 < Fin 100 \<and> \<not> Fin 101 < Fin 101"
  by (simp add: generateOrderBookData_def bidLevel_def askLevel_def Let_def minus_number_def
      ovf_small upt_rec)

lemma level_factors:
  assumes i: "i < 10" and r: "0 \<le> r" "r < 1"
  shows "Fin (real i) * Fin 0.0005 + Fin 0.0001 * Fin r = Fin (real i * 0.0005 + 0.0001 * r)"
    and "Fin 1 - Fin (real i) * Fin 0.08 = Fin (1 - real i * 0.08)"
    and "Fin 0.8 + Fin r * Fin 0.4 = Fin (0.8 + r * 0.4)"
proof -
  have ri: "0 \<le> real i" "real i < 10" using i by simp_all
  have t: "(100::real) < overflow_threshold" using small_lt_threshold by simp
  have a: "\<bar>real i * 0.0005\<bar> < overflow_threshold" using ri t by simp
  have b: "\<bar>0.0001 * r\<bar> < overflow_threshold" using r t by simp
  have c: "\<bar>real i * 0.0005 + 0.0001 * r\<bar> < overflow_threshold" using ri r t by simp
  show "Fin (real i) * Fin 0.0005 + Fin 0.0001 * Fin r = Fin (real i * 0.0005 + 0.0001 * r)"
    using a b c by (simp add: ovf_Fin)
  have d: "\<bar>real i * 0.08\<bar> < overflow_threshold" using ri t by simp
  have e: "\<bar>1 - real i * 0.08\<bar> < overflow_threshold" using ri t by (simp add: abs_if)
  show "Fin 1 - Fin (real i) * Fin 0.08 = Fin (1 - real i * 0.08)"
    using d e by (simp add: minus_number_def ovf_Fin)
  have f: "\<bar>r * 0.4\<bar> < overflow_threshold" using r t by simp
  have g: "\<bar>0.8 + r * 0.4\<bar> < overflow_threshold" using r t by simp
  show "Fin 0.8 + Fin r * Fin 0.4 = Fin (0.8 + r * 0.4)"
    using f g by (simp add: ovf_Fin)
qed

lemma level_size_nonneg:
  assumes i: "i < 10" and r: "0 \<le> r" "r < 1" and s: "Fin 0 \<le> sz"
  shows "Fin 0 \<le> sz * (Fin 1 - Fin (real i) * Fin 0.08) * (Fin 0.8 + Fin r * Fin 0.4)"
proof -
  have "real i < 10" using i by simp
  then have "0 < 1 - real i * 0.08" by simp
  moreover have "0 < 0.8 + r * 0.4" using r by simp
  ultimately show ?thesis
    unfolding level_factors(2,3) [OF i r] using s by (intro nonneg_scale)
qed

text \<open>
  What holds of every synthesized level, for a finite bid price above 0, a finite ask
  price above 0, sizes that are not negative and draws in \<open>[0, 1)\<close>: the size is not
  negative, a bid level is priced at most at the bid price and an ask level at least at
  the ask price, strictly so from the second level on when the price is not below the
  smallest normal number. The first level is apart from the quote by the jitter
  \<open>0.0001 * Math.random()\<close> times the price alone, which is 0 at a draw of 0 and which
  the code rounds away at a draw that is small enough; nothing strict is stated of it.
\<close>

lemma bidLevel_bounds:
  assumes b: "0 < b" "b < overflow_threshold" and s: "Fin 0 \<le> bsize" and i: "i < 10"
    and r: "\<forall>k. 0 \<le> rs k \<and> rs k < 1"
  shows "fst (bidLevel (Fin b) bsize rs i) \<le> Fin b"
    and "0 < i \<and> min_normal \<le> b \<Longrightarrow> fst (bidLevel (Fin b) bsize rs i) < Fin b"
    and "Fin 0 \<le> snd (bidLevel (Fin b) bsize rs i)"
proof -
  define d where "d = real i * 0.0005 + 0.0001 * rs (2 * i)"
  have ri: "0 \<le> real i" "real i < 10" using i by simp_all
  have r1: "0 \<le> rs (2 * i)" "rs (2 * i) < 1" using r by simp_all
  have d: "0 \<le> d" "d < 1" using ri r1 by (simp_all add: d_def)
  have db: "0 \<le> d * b" "d * b \<le> b" using d b by (simp_all add: mult_left_le_one_le)
  then have "\<bar>d * b\<bar> < overflow_threshold" "\<bar>b - d * b\<bar> < overflow_threshold"
    using b by linarith+
  then have "Fin b - Fin d * Fin b = Fin (b - d * b)"
    by (simp add: minus_number_def ovf_Fin)
  moreover have "fst (bidLevel (Fin b) bsize rs i) = Fin b - Fin d * Fin b"
    by (simp only: bidLevel_def Let_def fst_conv level_factors(1) [OF i r1] d_def)
  ultimately have p: "fst (bidLevel (Fin b) bsize rs i) = Fin (b - d * b)"
    by simp
  show "fst (bidLevel (Fin b) bsize rs i) \<le> Fin b" using p db by simp
  show "fst (bidLevel (Fin b) bsize rs i) < Fin b" if "0 < i \<and> min_normal \<le> b"
  proof -
    have "0 < d" using that ri r1 by (auto simp: d_def add_pos_nonneg add_nonneg_pos)
    then have "0 < d * b" using b by simp
    then show ?thesis using p by simp
  qed
  have "0 \<le> rs (2 * i + 1)" "rs (2 * i + 1) < 1" using r by simp_all
  then show "Fin 0 \<le> snd (bidLevel (Fin b) bsize rs i)"
    using level_size_nonneg [OF i _ _ s] by (simp only: bidLevel_def Let_def snd_conv)
qed

lemma askLevel_bounds:
  assumes a: "0 < a" "a < overflow_threshold" and s: "Fin 0 \<le> asize" and i: "i < 10"
    and r: "\<forall>k. 0 \<le> rs k \<and> rs k < 1"
  shows "Fin a \<le> fst (askLevel (Fin a) asize rs i)"
    and "0 < i \<and> min_normal \<le> a \<Longrightarrow> Fin a < fst (askLevel (Fin a) asize rs i)"
    and "Fin 0 \<le> snd (askLevel (Fin a) asize rs i)"
proof -
  define d where "d = real i * 0.0005 + 0.0001 * rs (20 + 2 * i)"
  have ri: "0 \<le> real i" "real i < 10" using i by simp_all
  have r1: "0 \<le> rs (20 + 2 * i)" "rs (20 + 2 * i) < 1" using r by simp_all
  have d: "0 \<le> d" "d < 1" using ri r1 by (simp_all add: d_def)
  have da: "0 \<le> d * a" "d * a \<le> a" using d a by (simp_all add: mult_left_le_one_le)
  then have "\<bar>d * a\<bar> < overflow_threshold" using a by linarith
  then have "Fin a + Fin d * Fin a = ovf (a + d * a)"
    by (simp add: ovf_Fin)
  moreover have "fst (askLevel (Fin a) asize rs i) = Fin a + Fin d * Fin a"
    by (simp only: askLevel_def Let_def fst_conv level_factors(1) [OF i r1] d_def)
  ultimately have p: "fst (askLevel (Fin a) asize rs i) = ovf (a + d * a)"
    by simp
  have pos: "\<not> a + d * a \<le> - overflow_threshold" using a da threshold_pos by linarith
  show "Fin a \<le> fst (askLevel (Fin a) asize rs i)"
    using p da pos ovf_cases [of "a + d * a"] by auto
  show "Fin a < fst (askLevel (Fin a) asize rs i)" if "0 < i \<and> min_normal \<le> a"
  proof -
    have "0 < d" using that ri r1 by (auto simp: d_def add_pos_nonneg add_nonneg_pos)
    then have "0 < d * a" using a by simp
    then show ?thesis using p pos ovf_cases [of "a + d * a"] by auto
  qed
  have "0 \<le> rs (20 + 2 * i + 1)" "rs (20 + 2 * i + 1) < 1" using r by simp_all
  then show "Fin 0 \<le> snd (askLevel (Fin a) asize rs i)"
    using level_size_nonneg [OF i _ _ s] by (simp only: askLevel_def Let_def snd_conv)
qed

lemma generateOrderBookData_levels:
  assumes "0 < b" "b < overflow_threshold" "0 < a" "a < overflow_threshold"
    and "Fin 0 \<le> bsize" "Fin 0 \<le> asize" and "\<forall>k. 0 \<le> rs k \<and> rs k < 1"
  shows "length (fst (generateOrderBookData (Fin b) (Fin a) bsize asize rs)) = 10"
    and "length (snd (generateOrderBookData (Fin b) (Fin a) bsize asize rs)) = 10"
    and "\<forall>lv \<in> set (fst (generateOrderBookData (Fin b) (Fin a) bsize asize rs)).
           fst lv \<le> Fin b \<and> Fin 0 \<le> snd lv"
    and "\<forall>lv \<in> set (snd (generateOrderBookData (Fin b) (Fin a) bsize asize rs)).
           Fin a \<le> fst lv \<and> Fin 0 \<le> snd lv"
    and "\<forall>i < 10. 0 < i \<and> min_normal \<le> b \<longrightarrow>
           fst (fst (generateOrderBookData (Fin b) (Fin a) bsize asize rs) ! i) < Fin b"
    and "\<forall>i < 10. 0 < i \<and> min_normal \<le> a \<longrightarrow>
           Fin a < fst (snd (generateOrderBookData (Fin b) (Fin a) bsize asize rs) ! i)"
  using assms
  by (auto simp: generateOrderBookData_def bidLevel_bounds askLevel_bounds simp del: upt_Suc)

section \<open>Properties of the provider adapters and the fallback aggregator\<close>

text \<open>
  The enrichment keeps the tag and the prices of the adapter's snapshot.
\<close>

lemma withMetrics_keeps:
  "source (withMetrics d mcap rs) = source d"
  "symbol (withMetrics d mcap rs) = symbol d"
  "bidPrice (withMetrics d mcap rs) = bidPrice d"
  "askPrice (withMetrics d mcap rs) = askPrice d"
  by (simp_all add: withMetrics_def Let_def split: prod.splits)

text \<open>
  Which adapters a run enters.
\<close>

lemma calls_Math_random: "calls (snd (Math_random w st)) = calls st"
  by (simp add: Math_random_def)

lemma calls_yahooSnapshot: "calls (snd (yahooSnapshot w st symb q)) = calls st"
  by (simp add: yahooSnapshot_def Let_def Math_random_def split: prod.splits)

lemma calls_dailySnapshot: "calls (snd (dailySnapshot w st symb c v)) = calls st"
  by (simp add: dailySnapshot_def Let_def Math_random_def split: prod.splits)

lemma calls_fetchYahooFinanceData:
  "calls (snd (fetchYahooFinanceData w st symb)) = calls st @ [YahooFinance]"
  by (auto simp: fetchYahooFinanceData_def Let_def yahooSnapshot_def Math_random_def
      split: option.splits sum.splits prod.splits)

lemma calls_fetchAlphaVantageDailyData:
  "calls (snd (fetchAlphaVantageDailyData w st symb)) = calls st @ [AlphaVantageDaily]"
  by (auto simp: fetchAlphaVantageDailyData_def Let_def dailySnapshot_def Math_random_def
      split: option.splits sum.splits prod.splits av_body.splits list.splits)

lemma calls_lookupMarketCap: "calls (snd (lookupMarketCap w st symb)) = calls st"
  by (auto simp: lookupMarketCap_def Let_def split: yahoo_response.splits option.splits list.splits)

text \<open>
  The two branches of the aggregator succeed exactly when their adapter does.
\<close>

lemma yahooBranch_Inr:
  assumes "fst (fetchYahooFinanceData w st symb) = Inr y"
  shows "\<exists>snap. fst (yahooBranch w st symb) = Inr snap \<and> source snap = source y
     \<and> bidPrice snap = bidPrice y \<and> askPrice snap = askPrice y"
    and "calls (snd (yahooBranch w st symb)) = calls st @ [YahooFinance]"
proof -
  obtain st1 where f: "fetchYahooFinanceData w st symb = (Inr y, st1)"
    using assms by (cases "fetchYahooFinanceData w st symb") auto
  have c1: "calls st1 = calls st @ [YahooFinance]"
    using calls_fetchYahooFinanceData [of w st symb] f by simp
  show "\<exists>snap. fst (yahooBranch w st symb) = Inr snap \<and> source snap = source y
     \<and> bidPrice snap = bidPrice y \<and> askPrice snap = askPrice y"
    using f by (simp add: yahooBranch_def Let_def withMetrics_keeps split: prod.splits)
  show "calls (snd (yahooBranch w st symb)) = calls st @ [YahooFinance]"
    using f c1 calls_lookupMarketCap [of w "st1\<lparr>drawn := drawn st1 + 40\<rparr>" symb]
    by (cases "lookupMarketCap w (st1\<lparr>drawn := drawn st1 + 40\<rparr>) symb")
       (simp add: yahooBranch_def Let_def)
qed

lemma yahooBranch_Inl:
  assumes "fst (fetchYahooFinanceData w st symb) = Inl e"
  shows "yahooBranch w st symb = (Inl e, snd (fetchYahooFinanceData w st symb))"
  using assms by (cases "fetchYahooFinanceData w st symb") (auto simp: yahooBranch_def)

lemma alphaVantageBranch_Inr:
  assumes "fst (fetchAlphaVantageDailyData w st symb) = Inr d"
  shows "\<exists>snap. fst (alphaVantageBranch w st symb) = Inr snap \<and> source snap = source d
     \<and> bidPrice snap = bidPrice d \<and> askPrice snap = askPrice d"
    and "calls (snd (alphaVantageBranch w st symb)) = calls st @ [AlphaVantageDaily]"
proof -
  obtain st1 where f: "fetchAlphaVantageDailyData w st symb = (Inr d, st1)"
    using assms by (cases "fetchAlphaVantageDailyData w st symb") auto
  have c1: "calls st1 = calls st @ [AlphaVantageDaily]"
    using calls_fetchAlphaVantageDailyData [of w st symb] f by simp
  show "\<exists>snap. fst (alphaVantageBranch w st symb) = Inr snap \<and> source snap = source d
     \<and> bidPrice snap = bidPrice d \<and> askPrice snap = askPrice d"
    using f by (simp add: alphaVantageBranch_def Let_def withMetrics_keeps)
  show "calls (snd (alphaVantageBranch w st symb)) = calls st @ [AlphaVantageDaily]"
    using f c1 by (simp add: alphaVantageBranch_def Let_def)
qed

lemma alphaVantageBranch_Inl:
  assumes "fst (fetchAlphaVantageDailyData w st symb) = Inl e"
  shows "alphaVantageBranch w st symb = (Inl e, snd (fetchAlphaVantageDailyData w st symb))"
  using assms by (cases "fetchAlphaVantageDailyData w st symb") (auto simp: alphaVantageBranch_def)

lemma fetchAll_returns: "\<exists>snapshot. fst (fetchAllDataForSymbol w st symb) = Inr snapshot"
  by (auto simp: fetchAllDataForSymbol_def split: prod.splits sum.splits)

lemma fetchAll_both_fail:
  assumes "isl (fst (fetchYahooFinanceData w st symb))"
    and "isl (fst (fetchAlphaVantageDailyData w (snd (fetchYahooFinanceData w st symb)) symb))"
  shows "fst (fetchAllDataForSymbol w st symb) = Inr (errorSnapshot w symb)"
proof -
  obtain e where e: "fst (fetchYahooFinanceData w st symb) = Inl e"
    using assms(1) by (cases "fst (fetchYahooFinanceData w st symb)") auto
  obtain e2 where e2: "fst (fetchAlphaVantageDailyData w (snd (fetchYahooFinanceData w st symb)) symb) = Inl e2"
    using assms(2) by (cases "fst (fetchAlphaVantageDailyData w (snd (fetchYahooFinanceData w st symb)) symb)") auto
  show ?thesis
    by (simp add: fetchAllDataForSymbol_def yahooBranch_Inl [OF e] alphaVantageBranch_Inl [OF e2])
qed

text \<open>
  The prices an adapter derives from its reference price.
\<close>

lemma fst_yahooSnapshot:
  "source (fst (yahooSnapshot w st symb q)) = ''yahoo-finance''"
  "symbol (fst (yahooSnapshot w st symb q)) = symb"
  "bidPrice (fst (yahooSnapshot w st symb q)) = or_zero (regularMarketPrice q) * Fin 0.9995"
  "askPrice (fst (yahooSnapshot w st symb q)) = or_zero (regularMarketPrice q) * Fin 1.0005"
  by (simp_all add: yahooSnapshot_def Let_def Math_random_def minus_number_def ovf_small)

lemma fst_dailySnapshot:
  "source (fst (dailySnapshot w st symb c v)) = ''alphavantage-daily''"
  "symbol (fst (dailySnapshot w st symb c v)) = symb"
  "bidPrice (fst (dailySnapshot w st symb c v)) = c * Fin 0.999"
  "askPrice (fst (dailySnapshot w st symb c v)) = c * Fin 1.001"
  "volume24h (fst (dailySnapshot w st symb c v)) = v"
  by (simp_all add: dailySnapshot_def Let_def Math_random_def minus_number_def ovf_small)

lemma fetchYahooFinanceData_fresh:
  assumes "yahooCacheStale w st symb"
    and "quoteData_of symb (yahooFinance_quote w (quoted st) (replace_slash symb)) = Inr (Some q)"
  shows "\<exists>y. fst (fetchYahooFinanceData w st symb) = Inr y \<and> source y = ''yahoo-finance'' \<and>
           bidPrice y = or_zero (regularMarketPrice q) * Fin 0.9995 \<and>
           askPrice y = or_zero (regularMarketPrice q) * Fin 1.0005"
  using assms
  by (auto simp: fetchYahooFinanceData_def Let_def case_prod_beta
      fst_yahooSnapshot split: option.splits)

lemma fetchAlphaVantageDailyData_latest:
  assumes "dailyResponse w st symb = Inr (Body (Some ((latestTimestamp, Some latestData) # rest)))"
  shows "\<exists>d. fst (fetchAlphaVantageDailyData w st symb) = Inr d \<and> source d = ''alphavantage-daily'' \<and>
           bidPrice d = fst (daily_close_volume symb latestData) * Fin 0.999 \<and>
           askPrice d = fst (daily_close_volume symb latestData) * Fin 1.001 \<and>
           volume24h d = snd (daily_close_volume symb latestData)"
  using assms
  by (simp add: fetchAlphaVantageDailyData_def Let_def case_prod_beta
      fst_dailySnapshot)

text \<open>The tags the adapters give their snapshots.\<close>

lemma source_fetchYahooFinanceData:
  "yahooCacheStale w st symb \<Longrightarrow> fst (fetchYahooFinanceData w st symb) = Inr y \<Longrightarrow>
   source y = ''yahoo-finance''"
  by (auto simp: fetchYahooFinanceData_def Let_def case_prod_beta fst_yahooSnapshot
      split: sum.splits option.splits)

lemma source_fetchAlphaVantageDailyData:
  "fst (fetchAlphaVantageDailyData w st symb) = Inr d \<Longrightarrow>
   source d = ''alphavantage-daily'' \<or> source d = ''alphavantage-daily-error''"
  by (auto simp: fetchAlphaVantageDailyData_def Let_def case_prod_beta fst_dailySnapshot
      placeholderSnapshot_def split: sum.splits av_body.splits option.splits list.splits)

text \<open>
  C1. \<open>fetchAllDataForSymbol\<close> never throws: it always returns a snapshot. When the
  Yahoo Finance adapter and then the Alpha Vantage daily adapter both fail, the snapshot
  is the zeroed error snapshot: all prices, sizes and the volume 0, source \<open>error\<close>,
  liquidity score 0, market depth ratio 1, spread percentage 0, slippage impact all 0.
\<close>

theorem fetchAllDataForSymbol_never_throws:
  "(\<exists>snapshot. fst (fetchAllDataForSymbol w st symb) = Inr snapshot) \<and>
   (isl (fst (fetchYahooFinanceData w st symb)) \<and>
    isl (fst (fetchAlphaVantageDailyData w (snd (fetchYahooFinanceData w st symb)) symb)) \<longrightarrow>
    fst (fetchAllDataForSymbol w st symb) =
      Inr \<lparr> symbol = symb, timestamp = now w, bidPrice = Fin 0, askPrice = Fin 0,
            bidSize = Fin 0, askSize = Fin 0, volume24h = Fin 0, depthLevels = None,
            source = ''error'', liquidityScore = Some (Fin 0), marketDepthRatio = Some (Fin 1),
            volumeToMcapRatio = None, spreadPercentage = Some (Fin 0),
            slippageImpact = Some \<lparr> small = Fin 0, medium = Fin 0, large = Fin 0 \<rparr> \<rparr>)"
  using fetchAll_returns [of w st symb] fetchAll_both_fail [of w st symb]
  by (simp add: errorSnapshot_def)

lemma apiCache_fetchYahooFinanceData:
  "apiCache (snd (fetchYahooFinanceData w st symb)) = apiCache st"
  by (auto simp: fetchYahooFinanceData_def Let_def yahooSnapshot_def Math_random_def
      split: option.splits sum.splits prod.splits)

lemma yahoo_down:
  "yahooCache st = Map.empty \<Longrightarrow>
   fst (fetchYahooFinanceData downWorld st symb) = Inl (Rejected ''FetchError'')"
  by (simp add: fetchYahooFinanceData_def downWorld_def Let_def quoteData_of_def)

lemma alpha_down:
  "apiCache st = Map.empty \<Longrightarrow>
   fst (fetchAlphaVantageDailyData downWorld st symb) = Inl (Rejected ''AxiosError'')"
  by (simp add: fetchAlphaVantageDailyData_def downWorld_def Let_def
      getCachedOrFetch_def axiosDown_def)

text \<open>
  Both providers down: the result for \<open>BTC/USD\<close> is the error snapshot.
\<close>

theorem fetchAllDataForSymbol_never_throws_witness:
  "isl (fst (fetchYahooFinanceData downWorld initialState ''BTC/USD'')) \<and>
   isl (fst (fetchAlphaVantageDailyData downWorld
         (snd (fetchYahooFinanceData downWorld initialState ''BTC/USD'')) ''BTC/USD'')) \<and>
   fst (fetchAllDataForSymbol downWorld initialState ''BTC/USD'') =
      Inr \<lparr> symbol = ''BTC/USD'', timestamp = 1000, bidPrice = Fin 0, askPrice = Fin 0,
            bidSize = Fin 0, askSize = Fin 0, volume24h = Fin 0, depthLevels = None,
            source = ''error'', liquidityScore = Some (Fin 0), marketDepthRatio = Some (Fin 1),
            volumeToMcapRatio = None, spreadPercentage = Some (Fin 0),
            slippageImpact = Some \<lparr> small = Fin 0, medium = Fin 0, large = Fin 0 \<rparr> \<rparr>"
proof -
  have y: "isl (fst (fetchYahooFinanceData downWorld initialState ''BTC/USD''))"
    by (simp add: yahoo_down initialState_def)
  have a: "isl (fst (fetchAlphaVantageDailyData downWorld
         (snd (fetchYahooFinanceData downWorld initialState ''BTC/USD'')) ''BTC/USD''))"
    by (simp add: alpha_down apiCache_fetchYahooFinanceData initialState_def)
  have n: "now downWorld = 1000" by (simp add: downWorld_def)
  from fetchAllDataForSymbol_never_throws [of downWorld initialState "''BTC/USD''"] y a n
  show ?thesis by simp
qed

lemma fetchAll_of_yahoo:
  assumes "fst (fetchYahooFinanceData w st symb) = Inr y"
  shows "\<exists>snap. fst (fetchAllDataForSymbol w st symb) = Inr snap \<and> source snap = source y \<and>
           bidPrice snap = bidPrice y \<and> askPrice snap = askPrice y"
    and "calls (snd (fetchAllDataForSymbol w st symb)) = calls st @ [YahooFinance]"
proof -
  obtain snap where s: "fst (yahooBranch w st symb) = Inr snap" "source snap = source y"
      "bidPrice snap = bidPrice y" "askPrice snap = askPrice y"
    using yahooBranch_Inr(1) [OF assms] by blast
  have eq: "fetchAllDataForSymbol w st symb = yahooBranch w st symb"
    using s(1) by (cases "yahooBranch w st symb") (simp add: fetchAllDataForSymbol_def)
  show "\<exists>snap. fst (fetchAllDataForSymbol w st symb) = Inr snap \<and> source snap = source y \<and>
           bidPrice snap = bidPrice y \<and> askPrice snap = askPrice y"
    using s eq by simp
  show "calls (snd (fetchAllDataForSymbol w st symb)) = calls st @ [YahooFinance]"
    using eq yahooBranch_Inr(2) [OF assms] by simp
qed

lemma fetchAll_of_alphaVantage:
  assumes "fst (fetchYahooFinanceData w st symb) = Inl e"
    and "fst (fetchAlphaVantageDailyData w (snd (fetchYahooFinanceData w st symb)) symb) = Inr d"
  shows "\<exists>snap. fst (fetchAllDataForSymbol w st symb) = Inr snap \<and> source snap = source d \<and>
           bidPrice snap = bidPrice d \<and> askPrice snap = askPrice d"
    and "calls (snd (fetchAllDataForSymbol w st symb)) = calls st @ [YahooFinance, AlphaVantageDaily]"
proof -
  let ?st1 = "snd (fetchYahooFinanceData w st symb)"
  obtain snap where s: "fst (alphaVantageBranch w ?st1 symb) = Inr snap" "source snap = source d"
      "bidPrice snap = bidPrice d" "askPrice snap = askPrice d"
    using alphaVantageBranch_Inr(1) [OF assms(2)] by blast
  have eq: "fetchAllDataForSymbol w st symb = alphaVantageBranch w ?st1 symb"
    using s(1) by (cases "alphaVantageBranch w ?st1 symb")
      (simp add: fetchAllDataForSymbol_def yahooBranch_Inl [OF assms(1)])
  show "\<exists>snap. fst (fetchAllDataForSymbol w st symb) = Inr snap \<and> source snap = source d \<and>
           bidPrice snap = bidPrice d \<and> askPrice snap = askPrice d"
    using s eq by simp
  show "calls (snd (fetchAllDataForSymbol w st symb)) = calls st @ [YahooFinance, AlphaVantageDaily]"
    using eq alphaVantageBranch_Inr(2) [OF assms(2)] calls_fetchYahooFinanceData [of w st symb]
    by simp
qed

lemma calls_fetchAll:
  "calls (snd (fetchAllDataForSymbol w st symb)) = calls st @ [YahooFinance] \<or>
   calls (snd (fetchAllDataForSymbol w st symb)) = calls st @ [YahooFinance, AlphaVantageDaily]"
proof (cases "fst (fetchYahooFinanceData w st symb)")
  case (Inr y)
  then show ?thesis using fetchAll_of_yahoo(2) by blast
next
  case (Inl e)
  let ?st1 = "snd (fetchYahooFinanceData w st symb)"
  show ?thesis
  proof (cases "fst (fetchAlphaVantageDailyData w ?st1 symb)")
    case (Inr d)
    then show ?thesis using fetchAll_of_alphaVantage(2) [OF Inl] by blast
  next
    case Inl2: (Inl e2)
    have "fetchAllDataForSymbol w st symb =
        (Inr (errorSnapshot w symb), snd (fetchAlphaVantageDailyData w ?st1 symb))"
      by (simp add: fetchAllDataForSymbol_def yahooBranch_Inl [OF Inl] alphaVantageBranch_Inl [OF Inl2])
    then show ?thesis
      using calls_fetchAlphaVantageDailyData [of w ?st1 symb] calls_fetchYahooFinanceData [of w st symb]
      by simp
  qed
qed

text \<open>
  C2. Every run enters the Yahoo Finance adapter first and the Alpha Vantage daily
  adapter only after it. When the first adapter succeeds, the result carries the tag of
  its snapshot (\<open>yahoo-finance\<close>, unless the snapshot came from the cache) and the
  second adapter is not entered; when the first fails and the second succeeds, the
  result carries the tag of the second one's snapshot (\<open>alphavantage-daily\<close>, or
  \<open>alphavantage-daily-error\<close> for its placeholder). When the
  first fails and the second reads a finite close price \<open>p\<close> that is not below the
  smallest normal number, the result is tagged \<open>alphavantage-daily\<close> and has
  \<open>bidPrice < p < askPrice\<close>. (Below that bound the bid \<open>p * 0.999\<close> and the ask
  \<open>p * 1.001\<close> of the code can round to \<open>p\<close> itself.)
\<close>

theorem fallback_in_priority_order:
  "(calls (snd (fetchAllDataForSymbol w st symb)) = calls st @ [YahooFinance] \<or>
    calls (snd (fetchAllDataForSymbol w st symb)) = calls st @ [YahooFinance, AlphaVantageDaily]) \<and>
   (\<forall>y. fst (fetchYahooFinanceData w st symb) = Inr y \<longrightarrow>
      (\<exists>snap. fst (fetchAllDataForSymbol w st symb) = Inr snap \<and> source snap = source y) \<and>
      calls (snd (fetchAllDataForSymbol w st symb)) = calls st @ [YahooFinance] \<and>
      (yahooCacheStale w st symb \<longrightarrow> source y = ''yahoo-finance'')) \<and>
   (\<forall>e d. fst (fetchYahooFinanceData w st symb) = Inl e \<and>
      fst (fetchAlphaVantageDailyData w (snd (fetchYahooFinanceData w st symb)) symb) = Inr d \<longrightarrow>
      (\<exists>snap. fst (fetchAllDataForSymbol w st symb) = Inr snap \<and> source snap = source d) \<and>
      calls (snd (fetchAllDataForSymbol w st symb)) = calls st @ [YahooFinance, AlphaVantageDaily] \<and>
      (source d = ''alphavantage-daily'' \<or> source d = ''alphavantage-daily-error'')) \<and>
   (\<forall>e latestTimestamp latestData rest p.
      fst (fetchYahooFinanceData w st symb) = Inl e \<and>
      dailyResponse w (snd (fetchYahooFinanceData w st symb)) symb =
        Inr (Body (Some ((latestTimestamp, Some latestData) # rest))) \<and>
      fst (daily_close_volume symb latestData) = Fin p \<and> min_normal \<le> p \<and> p < overflow_threshold \<longrightarrow>
      (\<exists>snap. fst (fetchAllDataForSymbol w st symb) = Inr snap \<and>
         source snap = ''alphavantage-daily'' \<and> bidPrice snap < Fin p \<and> Fin p < askPrice snap))"
proof (intro conjI allI impI)
  show "calls (snd (fetchAllDataForSymbol w st symb)) = calls st @ [YahooFinance] \<or>
    calls (snd (fetchAllDataForSymbol w st symb)) = calls st @ [YahooFinance, AlphaVantageDaily]"
    by (rule calls_fetchAll)
next
  fix y assume "fst (fetchYahooFinanceData w st symb) = Inr y"
  then show "\<exists>snap. fst (fetchAllDataForSymbol w st symb) = Inr snap \<and> source snap = source y"
    using fetchAll_of_yahoo(1) by blast
next
  fix y assume "fst (fetchYahooFinanceData w st symb) = Inr y"
  then show "calls (snd (fetchAllDataForSymbol w st symb)) = calls st @ [YahooFinance]"
    by (rule fetchAll_of_yahoo(2))
next
  fix y assume "fst (fetchYahooFinanceData w st symb) = Inr y" and "yahooCacheStale w st symb"
  then show "source y = ''yahoo-finance''"
    using source_fetchYahooFinanceData by blast
next
  fix e d
  assume "fst (fetchYahooFinanceData w st symb) = Inl e \<and>
      fst (fetchAlphaVantageDailyData w (snd (fetchYahooFinanceData w st symb)) symb) = Inr d"
  then show "\<exists>snap. fst (fetchAllDataForSymbol w st symb) = Inr snap \<and> source snap = source d"
    using fetchAll_of_alphaVantage(1) by blast
next
  fix e d
  assume "fst (fetchYahooFinanceData w st symb) = Inl e \<and>
      fst (fetchAlphaVantageDailyData w (snd (fetchYahooFinanceData w st symb)) symb) = Inr d"
  then show "calls (snd (fetchAllDataForSymbol w st symb)) = calls st @ [YahooFinance, AlphaVantageDaily]"
    using fetchAll_of_alphaVantage(2) by blast
next
  fix e d
  assume "fst (fetchYahooFinanceData w st symb) = Inl e \<and>
      fst (fetchAlphaVantageDailyData w (snd (fetchYahooFinanceData w st symb)) symb) = Inr d"
  then show "source d = ''alphavantage-daily'' \<or> source d = ''alphavantage-daily-error''"
    using source_fetchAlphaVantageDailyData by blast
next
  fix e latestTimestamp latestData rest p
  let ?st1 = "snd (fetchYahooFinanceData w st symb)"
  assume h: "fst (fetchYahooFinanceData w st symb) = Inl e \<and>
      dailyResponse w ?st1 symb = Inr (Body (Some ((latestTimestamp, Some latestData) # rest))) \<and>
      fst (daily_close_volume symb latestData) = Fin p \<and> min_normal \<le> p \<and> p < overflow_threshold"
  then obtain d where d: "fst (fetchAlphaVantageDailyData w ?st1 symb) = Inr d"
      "source d = ''alphavantage-daily''" "bidPrice d = Fin p * Fin 0.999"
      "askPrice d = Fin p * Fin 1.001"
    using fetchAlphaVantageDailyData_latest [of w ?st1 symb latestTimestamp latestData rest]
    by auto
  obtain snap where s: "fst (fetchAllDataForSymbol w st symb) = Inr snap" "source snap = source d"
      "bidPrice snap = bidPrice d" "askPrice snap = askPrice d"
    using fetchAll_of_alphaVantage(1) [OF _ d(1)] h by blast
  have pos: "0 < p" using h min_normal_pos by linarith
  have "Fin p * Fin 0.999 < Fin p" using h pos by (intro scale_down) simp_all
  moreover have "Fin p < Fin p * Fin 1.001" using h pos by (intro scale_up) simp_all
  ultimately show "\<exists>snap. fst (fetchAllDataForSymbol w st symb) = Inr snap \<and>
         source snap = ''alphavantage-daily'' \<and> bidPrice snap < Fin p \<and> Fin p < askPrice snap"
    using s d by auto
qed

lemma yahoo_fallbackWorld:
  "yahooCache st = Map.empty \<Longrightarrow>
   fst (fetchYahooFinanceData fallbackWorld st symb) = Inl (Rejected ''FetchError'')"
  by (simp add: fetchYahooFinanceData_def fallbackWorld_def Let_def quoteData_of_def)

lemma daily_fallbackWorld:
  "apiCache st = Map.empty \<Longrightarrow>
   dailyResponse fallbackWorld st symb = Inr (Body (Some [(''2024-01-01'', Some ethPoint)]))"
  by (simp add: fallbackWorld_def getCachedOrFetch_def Let_def ethPoint_def)

lemma close_ethPoint: "daily_close_volume ''ETH/USD'' ethPoint = (Fin 2000, Fin 500)"
  by (simp add: daily_close_volume_def ethPoint_def quoteCurrency_def isNaN_def Let_def)

text \<open>
  The scenario of the specification: Yahoo Finance throws, Alpha Vantage returns a
  close of 2000 and a volume of 500. And a run in which Yahoo Finance answers: the
  Alpha Vantage adapter is not entered.
\<close>

theorem fallback_in_priority_order_witness:
  "fst (fetchYahooFinanceData fallbackWorld initialState ''ETH/USD'') = Inl (Rejected ''FetchError'') \<and>
   dailyResponse fallbackWorld (snd (fetchYahooFinanceData fallbackWorld initialState ''ETH/USD'')) ''ETH/USD'' =
     Inr (Body (Some [(''2024-01-01'', Some ethPoint)])) \<and>
   fst (daily_close_volume ''ETH/USD'' ethPoint) = Fin 2000 \<and>
   min_normal \<le> 2000 \<and> 2000 < overflow_threshold \<and>
   (\<exists>snap. fst (fetchAllDataForSymbol fallbackWorld initialState ''ETH/USD'') = Inr snap \<and>
      source snap = ''alphavantage-daily'' \<and> bidPrice snap < Fin 2000 \<and> Fin 2000 < askPrice snap) \<and>
   calls (snd (fetchAllDataForSymbol fallbackWorld initialState ''ETH/USD'')) =
     [YahooFinance, AlphaVantageDaily] \<and>
   yahooCacheStale upWorld initialState ''BTC/USD'' \<and>
   (\<exists>y. fst (fetchYahooFinanceData upWorld initialState ''BTC/USD'') = Inr y) \<and>
   (\<exists>snap. fst (fetchAllDataForSymbol upWorld initialState ''BTC/USD'') = Inr snap \<and>
      source snap = ''yahoo-finance'') \<and>
   calls (snd (fetchAllDataForSymbol upWorld initialState ''BTC/USD'')) = [YahooFinance]"
proof -
  let ?st1 = "snd (fetchYahooFinanceData fallbackWorld initialState ''ETH/USD'')"
  have y: "fst (fetchYahooFinanceData fallbackWorld initialState ''ETH/USD'') = Inl (Rejected ''FetchError'')"
    by (simp add: yahoo_fallbackWorld initialState_def)
  have r: "dailyResponse fallbackWorld ?st1 ''ETH/USD'' = Inr (Body (Some [(''2024-01-01'', Some ethPoint)]))"
    by (rule daily_fallbackWorld) (simp add: apiCache_fetchYahooFinanceData initialState_def)
  have c: "fst (daily_close_volume ''ETH/USD'' ethPoint) = Fin 2000"
    by (simp add: close_ethPoint)
  have b: "(2000::real) < overflow_threshold"
    using small_lt_threshold by linarith
  have z: "min_normal \<le> 2000"
    using min_normal_le_one by linarith
  obtain d where d: "fst (fetchAlphaVantageDailyData fallbackWorld ?st1 ''ETH/USD'') = Inr d"
    using fetchAlphaVantageDailyData_latest [OF r] by blast
  have i: "calls initialState = []" by (simp add: initialState_def)
  have stale: "yahooCacheStale upWorld initialState ''BTC/USD''"
    by (simp add: initialState_def)
  obtain q where q: "fst (fetchYahooFinanceData upWorld initialState ''BTC/USD'') = Inr q"
  proof -
    have "quoteData_of ''BTC/USD'' (yahooFinance_quote upWorld (quoted initialState) (replace_slash ''BTC/USD'')) =
       Inr (Some btcQuote)"
      by (simp add: upWorld_def quoteData_of_def)
    then show ?thesis
      using fetchYahooFinanceData_fresh [of upWorld initialState "''BTC/USD''" btcQuote] stale that
      by blast
  qed
  note fb = fallback_in_priority_order [of fallbackWorld initialState "''ETH/USD''"]
  note up = fallback_in_priority_order [of upWorld initialState "''BTC/USD''",
      THEN conjunct2, THEN conjunct1, rule_format, OF q]
  have part1: "(\<exists>snap. fst (fetchAllDataForSymbol fallbackWorld initialState ''ETH/USD'') = Inr snap \<and>
      source snap = ''alphavantage-daily'' \<and> bidPrice snap < Fin 2000 \<and> Fin 2000 < askPrice snap)"
    using fb y r c z b by simp
  have part2: "calls (snd (fetchAllDataForSymbol fallbackWorld initialState ''ETH/USD'')) =
     [YahooFinance, AlphaVantageDaily]"
    using fb y d i by simp
  obtain snap where snap: "fst (fetchAllDataForSymbol upWorld initialState ''BTC/USD'') = Inr snap"
      "source snap = source q"
    using up by blast
  have "source q = ''yahoo-finance''"
    using up stale by simp
  then have part3: "(\<exists>snap. fst (fetchAllDataForSymbol upWorld initialState ''BTC/USD'') = Inr snap \<and>
      source snap = ''yahoo-finance'')"
    using snap by simp
  have part4: "calls (snd (fetchAllDataForSymbol upWorld initialState ''BTC/USD'')) = [YahooFinance]"
    using up i by simp
  have qe: "\<exists>y. fst (fetchYahooFinanceData upWorld initialState ''BTC/USD'') = Inr y"
    using q by blast
  show ?thesis
    by (intro conjI) (fact y r c z b part1 part2 stale qe part3 part4)+
qed

text \<open>
  C8, as amended. A snapshot that an adapter builds from a reference price greater
  than 0 (the Yahoo market price, the Alpha Vantage close) is tagged with the adapter's
  name and has positive bid and ask prices with the ask at least the bid;
  \<open>fetchAllDataForSymbol\<close> returns the adapter's snapshot with its tag and prices
  unchanged, and the store retains a saved snapshot as it is.
\<close>

theorem adapter_prices_positive:
  "(\<forall>q. yahooCacheStale w st symb \<and>
       quoteData_of symb (yahooFinance_quote w (quoted st) (replace_slash symb)) = Inr (Some q) \<and>
       Fin 0 < or_zero (regularMarketPrice q) \<longrightarrow>
       (\<exists>y. fst (fetchYahooFinanceData w st symb) = Inr y \<and> source y = ''yahoo-finance'' \<and>
          Fin 0 < bidPrice y \<and> Fin 0 < askPrice y \<and> bidPrice y \<le> askPrice y)) \<and>
   (\<forall>latestTimestamp latestData rest.
       dailyResponse w st symb = Inr (Body (Some ((latestTimestamp, Some latestData) # rest))) \<and>
       Fin 0 < fst (daily_close_volume symb latestData) \<longrightarrow>
       (\<exists>d. fst (fetchAlphaVantageDailyData w st symb) = Inr d \<and> source d = ''alphavantage-daily'' \<and>
          Fin 0 < bidPrice d \<and> Fin 0 < askPrice d \<and> bidPrice d \<le> askPrice d)) \<and>
   (\<forall>y. fst (fetchYahooFinanceData w st symb) = Inr y \<longrightarrow>
       (\<exists>snap. fst (fetchAllDataForSymbol w st symb) = Inr snap \<and> source snap = source y \<and>
          bidPrice snap = bidPrice y \<and> askPrice snap = askPrice y)) \<and>
   (\<forall>e d. fst (fetchYahooFinanceData w st symb) = Inl e \<and>
       fst (fetchAlphaVantageDailyData w (snd (fetchYahooFinanceData w st symb)) symb) = Inr d \<longrightarrow>
       (\<exists>snap. fst (fetchAllDataForSymbol w st symb) = Inr snap \<and> source snap = source d \<and>
          bidPrice snap = bidPrice d \<and> askPrice snap = askPrice d)) \<and>
   getLiquiditySnapshot (saveLiquiditySnapshot store snapshot) (symbol snapshot) = Some snapshot"
proof (intro conjI allI impI)
  fix q
  assume h: "yahooCacheStale w st symb \<and>
       quoteData_of symb (yahooFinance_quote w (quoted st) (replace_slash symb)) = Inr (Some q) \<and>
       Fin 0 < or_zero (regularMarketPrice q)"
  let ?p = "or_zero (regularMarketPrice q)"
  obtain y where y: "fst (fetchYahooFinanceData w st symb) = Inr y" "source y = ''yahoo-finance''"
      "bidPrice y = ?p * Fin 0.9995" "askPrice y = ?p * Fin 1.0005"
    using fetchYahooFinanceData_fresh [of w st symb q] h by blast
  have "Fin 0 < ?p * Fin 0.9995" "Fin 0 < ?p * Fin 1.0005" "?p * Fin 0.9995 \<le> ?p * Fin 1.0005"
    using h by (simp_all add: scale_pos scale_mono)
  then show "\<exists>y. fst (fetchYahooFinanceData w st symb) = Inr y \<and> source y = ''yahoo-finance'' \<and>
          Fin 0 < bidPrice y \<and> Fin 0 < askPrice y \<and> bidPrice y \<le> askPrice y"
    using y by simp
next
  fix latestTimestamp latestData rest
  assume h: "dailyResponse w st symb = Inr (Body (Some ((latestTimestamp, Some latestData) # rest))) \<and>
       Fin 0 < fst (daily_close_volume symb latestData)"
  let ?p = "fst (daily_close_volume symb latestData)"
  obtain d where d: "fst (fetchAlphaVantageDailyData w st symb) = Inr d"
      "source d = ''alphavantage-daily''" "bidPrice d = ?p * Fin 0.999" "askPrice d = ?p * Fin 1.001"
    using fetchAlphaVantageDailyData_latest [of w st symb latestTimestamp latestData rest] h by blast
  have "Fin 0 < ?p * Fin 0.999" "Fin 0 < ?p * Fin 1.001" "?p * Fin 0.999 \<le> ?p * Fin 1.001"
    using h by (simp_all add: scale_pos scale_mono)
  then show "\<exists>d. fst (fetchAlphaVantageDailyData w st symb) = Inr d \<and> source d = ''alphavantage-daily'' \<and>
          Fin 0 < bidPrice d \<and> Fin 0 < askPrice d \<and> bidPrice d \<le> askPrice d"
    using d by simp
next
  fix y assume "fst (fetchYahooFinanceData w st symb) = Inr y"
  then show "\<exists>snap. fst (fetchAllDataForSymbol w st symb) = Inr snap \<and> source snap = source y \<and>
          bidPrice snap = bidPrice y \<and> askPrice snap = askPrice y"
    by (rule fetchAll_of_yahoo(1))
next
  fix e d
  assume "fst (fetchYahooFinanceData w st symb) = Inl e \<and>
       fst (fetchAlphaVantageDailyData w (snd (fetchYahooFinanceData w st symb)) symb) = Inr d"
  then show "\<exists>snap. fst (fetchAllDataForSymbol w st symb) = Inr snap \<and> source snap = source d \<and>
          bidPrice snap = bidPrice d \<and> askPrice snap = askPrice d"
    using fetchAll_of_alphaVantage(1) by blast
next
  show "getLiquiditySnapshot (saveLiquiditySnapshot store snapshot) (symbol snapshot) = Some snapshot"
    by (simp add: getLiquiditySnapshot_def saveLiquiditySnapshot_def)
qed

lemma yahoo_noPrice:
  "fst (fetchYahooFinanceData noPriceWorld initialState ''BTC/USD'') = Inr noPriceSnapshot"
  by (simp add: fetchYahooFinanceData_def noPriceWorld_def initialState_def Let_def quoteData_of_def
      yahooSnapshot_def or_zero_def Math_random_def minus_number_def ovf_small noPriceSnapshot_def)

text \<open>
  C8 as stated fails: for a Yahoo quote without a price the adapter succeeds with the
  tag \<open>yahoo-finance\<close> and a bid and ask price of 0, and \<open>fetchAllDataForSymbol\<close>
  returns a snapshot with that tag and bid price.
\<close>

theorem zero_price_snapshot_not_positive:
  "fst (fetchYahooFinanceData noPriceWorld initialState ''BTC/USD'') = Inr noPriceSnapshot \<and>
   source noPriceSnapshot = ''yahoo-finance'' \<and>
   \<not> Fin 0 < bidPrice noPriceSnapshot \<and> \<not> Fin 0 < askPrice noPriceSnapshot \<and>
   \<not> isl (fst (fetchAllDataForSymbol noPriceWorld initialState ''BTC/USD'')) \<and>
   source (projr (fst (fetchAllDataForSymbol noPriceWorld initialState ''BTC/USD''))) = ''yahoo-finance'' \<and>
   bidPrice (projr (fst (fetchAllDataForSymbol noPriceWorld initialState ''BTC/USD''))) = Fin 0"
proof -
  obtain snap where s: "fst (fetchAllDataForSymbol noPriceWorld initialState ''BTC/USD'') = Inr snap"
      "source snap = source noPriceSnapshot" "bidPrice snap = bidPrice noPriceSnapshot"
    using fetchAll_of_yahoo(1) [OF yahoo_noPrice] by blast
  show ?thesis using s yahoo_noPrice by (simp add: noPriceSnapshot_def)
qed

text \<open>
  A Yahoo price of 50000, and an Alpha Vantage close of 2000 after Yahoo Finance threw.
\<close>

theorem adapter_prices_positive_witness:
  "yahooCacheStale upWorld initialState ''BTC/USD'' \<and>
   quoteData_of ''BTC/USD'' (yahooFinance_quote upWorld (quoted initialState) (replace_slash ''BTC/USD'')) =
     Inr (Some btcQuote) \<and>
   Fin 0 < or_zero (regularMarketPrice btcQuote) \<and>
   (\<exists>y. fst (fetchYahooFinanceData upWorld initialState ''BTC/USD'') = Inr y \<and>
      source y = ''yahoo-finance'' \<and> Fin 0 < bidPrice y \<and> Fin 0 < askPrice y \<and>
      bidPrice y \<le> askPrice y) \<and>
   (\<exists>snap. fst (fetchAllDataForSymbol upWorld initialState ''BTC/USD'') = Inr snap \<and>
      source snap = ''yahoo-finance'' \<and> Fin 0 < bidPrice snap \<and> Fin 0 < askPrice snap \<and>
      bidPrice snap \<le> askPrice snap) \<and>
   fst (fetchYahooFinanceData fallbackWorld initialState ''ETH/USD'') = Inl (Rejected ''FetchError'') \<and>
   dailyResponse fallbackWorld (snd (fetchYahooFinanceData fallbackWorld initialState ''ETH/USD'')) ''ETH/USD'' =
     Inr (Body (Some [(''2024-01-01'', Some ethPoint)])) \<and>
   Fin 0 < fst (daily_close_volume ''ETH/USD'' ethPoint) \<and>
   (\<exists>d. fst (fetchAlphaVantageDailyData fallbackWorld
            (snd (fetchYahooFinanceData fallbackWorld initialState ''ETH/USD'')) ''ETH/USD'') = Inr d \<and>
      source d = ''alphavantage-daily'' \<and> Fin 0 < bidPrice d \<and> Fin 0 < askPrice d \<and>
      bidPrice d \<le> askPrice d) \<and>
   (\<exists>snap. fst (fetchAllDataForSymbol fallbackWorld initialState ''ETH/USD'') = Inr snap \<and>
      source snap = ''alphavantage-daily'' \<and> Fin 0 < bidPrice snap \<and> Fin 0 < askPrice snap \<and>
      bidPrice snap \<le> askPrice snap)"
proof -
  let ?st1 = "snd (fetchYahooFinanceData fallbackWorld initialState ''ETH/USD'')"
  have stale: "yahooCacheStale upWorld initialState ''BTC/USD''"
    by (simp add: initialState_def)
  have q: "quoteData_of ''BTC/USD'' (yahooFinance_quote upWorld (quoted initialState) (replace_slash ''BTC/USD'')) =
     Inr (Some btcQuote)"
    by (simp add: upWorld_def quoteData_of_def)
  have p: "Fin 0 < or_zero (regularMarketPrice btcQuote)"
    by (simp add: btcQuote_def or_zero_def truthy_def)
  have yf: "fst (fetchYahooFinanceData fallbackWorld initialState ''ETH/USD'') = Inl (Rejected ''FetchError'')"
    by (simp add: yahoo_fallbackWorld initialState_def)
  have r: "dailyResponse fallbackWorld ?st1 ''ETH/USD'' =
     Inr (Body (Some [(''2024-01-01'', Some ethPoint)]))"
    by (rule daily_fallbackWorld) (simp add: apiCache_fetchYahooFinanceData initialState_def)
  have c: "Fin 0 < fst (daily_close_volume ''ETH/USD'' ethPoint)"
    by (simp add: close_ethPoint)
  note up = adapter_prices_positive [of upWorld initialState "''BTC/USD''" sampleStore btcSnapshot]
  note av = adapter_prices_positive [of fallbackWorld ?st1 "''ETH/USD''" sampleStore btcSnapshot]
  note fb = adapter_prices_positive [of fallbackWorld initialState "''ETH/USD''" sampleStore btcSnapshot]
  note up1 = up [THEN conjunct1, rule_format, of btcQuote, OF conjI [OF stale conjI [OF q p]]]
  obtain y where y: "fst (fetchYahooFinanceData upWorld initialState ''BTC/USD'') = Inr y"
      "source y = ''yahoo-finance''" "Fin 0 < bidPrice y" "Fin 0 < askPrice y" "bidPrice y \<le> askPrice y"
    using up1 by blast
  note up3 = up [THEN conjunct2, THEN conjunct2, THEN conjunct1, rule_format, OF y(1)]
  obtain snap where s: "fst (fetchAllDataForSymbol upWorld initialState ''BTC/USD'') = Inr snap"
      "source snap = source y" "bidPrice snap = bidPrice y" "askPrice snap = askPrice y"
    using up3 by blast
  note av2 = av [THEN conjunct2, THEN conjunct1, rule_format, OF conjI [OF r c]]
  obtain d where d: "fst (fetchAlphaVantageDailyData fallbackWorld ?st1 ''ETH/USD'') = Inr d"
      "source d = ''alphavantage-daily''" "Fin 0 < bidPrice d" "Fin 0 < askPrice d" "bidPrice d \<le> askPrice d"
    using av2 by blast
  note fb4 = fb [THEN conjunct2, THEN conjunct2, THEN conjunct2, THEN conjunct1, rule_format,
      OF conjI [OF yf d(1)]]
  obtain snap2 where s2: "fst (fetchAllDataForSymbol fallbackWorld initialState ''ETH/USD'') = Inr snap2"
      "source snap2 = source d" "bidPrice snap2 = bidPrice d" "askPrice snap2 = askPrice d"
    using fb4 by blast
  have e1: "\<exists>y. fst (fetchYahooFinanceData upWorld initialState ''BTC/USD'') = Inr y \<and>
      source y = ''yahoo-finance'' \<and> Fin 0 < bidPrice y \<and> Fin 0 < askPrice y \<and>
      bidPrice y \<le> askPrice y"
    using y by (intro exI [of _ y]) simp
  have e2: "\<exists>snap. fst (fetchAllDataForSymbol upWorld initialState ''BTC/USD'') = Inr snap \<and>
      source snap = ''yahoo-finance'' \<and> Fin 0 < bidPrice snap \<and> Fin 0 < askPrice snap \<and>
      bidPrice snap \<le> askPrice snap"
    using y s by (intro exI [of _ snap]) simp
  have e3: "\<exists>d. fst (fetchAlphaVantageDailyData fallbackWorld
            (snd (fetchYahooFinanceData fallbackWorld initialState ''ETH/USD'')) ''ETH/USD'') = Inr d \<and>
      source d = ''alphavantage-daily'' \<and> Fin 0 < bidPrice d \<and> Fin 0 < askPrice d \<and>
      bidPrice d \<le> askPrice d"
    using d by (intro exI [of _ d]) simp
  have e4: "\<exists>snap. fst (fetchAllDataForSymbol fallbackWorld initialState ''ETH/USD'') = Inr snap \<and>
      source snap = ''alphavantage-daily'' \<and> Fin 0 < bidPrice snap \<and> Fin 0 < askPrice snap \<and>
      bidPrice snap \<le> askPrice snap"
    using d s2 by (intro exI [of _ snap2]) simp
  show ?thesis
    by (intro conjI) (fact stale q p e1 e2 yf r c e3 e4)+
qed

text \<open>
  The placeholder of the Alpha Vantage daily adapter is a return, not a failure: when
  Yahoo Finance throws and the Alpha Vantage response has no time series, the result is
  the enriched placeholder. It agrees with the error snapshot in every number, but it
  is tagged \<open>alphavantage-daily-error\<close> and carries ten zero levels on each side.
\<close>

lemma zero_book:
  "generateOrderBookData (Fin 0) (Fin 0) (Fin 0) (Fin 0) (\<lambda>k. 1 / 2) =
     (replicate 10 (Fin 0, Fin 0), replicate 10 (Fin 0, Fin 0))"
  by (simp add: generateOrderBookData_def bidLevel_def askLevel_def Let_def minus_number_def
      ovf_small upt_rec numeral_eq_Suc)

lemma withMetrics_placeholder:
  "withMetrics (placeholderSnapshot noDataWorld ''BTC/USD'') None (\<lambda>k. 1 / 2) =
     (placeholderSnapshot noDataWorld ''BTC/USD'')
       \<lparr> depthLevels := Some \<lparr> bids = replicate 10 \<lparr> price = Fin 0, size_lvl = Fin 0, total = None \<rparr>,
                                asks = replicate 10 \<lparr> price = Fin 0, size_lvl = Fin 0, total = None \<rparr> \<rparr>,
         liquidityScore := Some (Fin 0), marketDepthRatio := Some (Fin 1),
         volumeToMcapRatio := None, spreadPercentage := Some (Fin 0),
         slippageImpact := Some \<lparr> small = Fin 0, medium = Fin 0, large = Fin 0 \<rparr> \<rparr>"
  by (simp add: withMetrics_def placeholderSnapshot_def zero_book Let_def toDepthLevel_def
      calculateLiquidityMetrics_def calculateBuySlippage_def minus_number_def ovf_small
      Math_min_def Math_max_def numeral_eq_Suc)

lemma fetchAllDataForSymbol_placeholder:
  "fst (fetchAllDataForSymbol noDataWorld initialState ''BTC/USD'') =
     Inr \<lparr> symbol = ''BTC/USD'', timestamp = 1000, bidPrice = Fin 0, askPrice = Fin 0,
           bidSize = Fin 0, askSize = Fin 0, volume24h = Fin 0,
           depthLevels = Some \<lparr> bids = replicate 10 \<lparr> price = Fin 0, size_lvl = Fin 0, total = None \<rparr>,
                                  asks = replicate 10 \<lparr> price = Fin 0, size_lvl = Fin 0, total = None \<rparr> \<rparr>,
           source = ''alphavantage-daily-error'', liquidityScore = Some (Fin 0),
           marketDepthRatio = Some (Fin 1), volumeToMcapRatio = None,
           spreadPercentage = Some (Fin 0),
           slippageImpact = Some \<lparr> small = Fin 0, medium = Fin 0, large = Fin 0 \<rparr> \<rparr>"
proof -
  have y: "fetchYahooFinanceData noDataWorld initialState ''BTC/USD'' =
      (Inl (Rejected ''FetchError''), initialState\<lparr> quoted := Suc 0, calls := [YahooFinance] \<rparr>)"
    by (simp add: fetchYahooFinanceData_def noDataWorld_def initialState_def Let_def quoteData_of_def)
  have a: "fst (fetchAlphaVantageDailyData noDataWorld
        (initialState\<lparr> quoted := Suc 0, calls := [YahooFinance] \<rparr>) ''BTC/USD'') =
      Inr (placeholderSnapshot noDataWorld ''BTC/USD'')"
    by (simp add: fetchAlphaVantageDailyData_def initialState_def Let_def getCachedOrFetch_def,
        simp add: noDataWorld_def)
  have r: "random noDataWorld = (\<lambda>k. 1 / 2)" by (simp add: noDataWorld_def)
  obtain st2 where a2: "fetchAlphaVantageDailyData noDataWorld
        (initialState\<lparr> quoted := Suc 0, calls := [YahooFinance] \<rparr>) ''BTC/USD'' =
      (Inr (placeholderSnapshot noDataWorld ''BTC/USD''), st2)"
    using a by (cases "fetchAlphaVantageDailyData noDataWorld
        (initialState\<lparr> quoted := Suc 0, calls := [YahooFinance] \<rparr>) ''BTC/USD''") auto
  have "fst (fetchAllDataForSymbol noDataWorld initialState ''BTC/USD'') =
      Inr (withMetrics (placeholderSnapshot noDataWorld ''BTC/USD'') None (\<lambda>k. 1 / 2))"
    by (simp add: fetchAllDataForSymbol_def yahooBranch_def y alphaVantageBranch_def a2 Let_def r)
  then show ?thesis
    by (simp add: withMetrics_placeholder) (simp add: placeholderSnapshot_def noDataWorld_def)
qed

section \<open>Properties of the market comparison\<close>

lemma compareScore_pos:
  "(Fin 0 < compareScore a b) = (or_zero (liquidityScore a) < or_zero (liquidityScore b))"
  by (simp add: compareScore_def Let_def minus_pos_iff or_zero_not_NaN)

lemma mset_insert_by: "mset (insert_by cmp x ys) = add_mset x (mset ys)"
  by (induction ys) auto

lemma mset_sort_by: "mset (sort_by cmp xs) = mset xs"
  by (induction xs) (auto simp: sort_by_def mset_insert_by)

lemma set_insert_by: "set (insert_by cmp x ys) = insert x (set ys)"
  by (simp add: mset_insert_by flip: set_mset_mset)

lemma sorted_insert_by:
  "sorted_wrt score_desc ys \<Longrightarrow> sorted_wrt score_desc (insert_by compareScore x ys)"
proof (induction ys)
  case Nil
  show ?case by simp
next
  case (Cons y ys)
  show ?case
  proof (cases "or_zero (liquidityScore x) < or_zero (liquidityScore y)")
    case True
    then show ?thesis
      using Cons by (auto simp: compareScore_pos set_insert_by less_imp_le_number)
  next
    case False
    then have yx: "or_zero (liquidityScore y) \<le> or_zero (liquidityScore x)"
      by (simp add: not_less_number or_zero_not_NaN)
    then show ?thesis
      using Cons.prems False by (auto simp: compareScore_pos intro: le_trans_number)
  qed
qed

lemma sorted_sort_by: "sorted_wrt score_desc (sort_by compareScore xs)"
  by (induction xs) (simp_all add: sort_by_def sorted_insert_by)

lemma collectSnapshots_eq:
  "collectSnapshots st syms =
     filter (\<lambda>s. source s \<noteq> ''error'') (List.map_filter (getLiquiditySnapshot st) syms)"
  by (induction syms) (auto simp: List.map_filter_simps split: option.splits)

text \<open>
  The comparison for every store: the stored snapshots of the configured symbols that
  are not tagged \<open>error\<close> and that have a liquidity score, each projected to the
  comparison fields, the higher score first.
\<close>

lemma marketComparison_filtered:
  "mset (marketComparison st) =
     mset (map comparisonRow
            (filter (\<lambda>s. source s \<noteq> ''error'' \<and> liquidityScore s \<noteq> None)
               (List.map_filter (getLiquiditySnapshot st) (getSymbols st))))"
  "sorted_wrt (\<lambda>a b. or_zero (row_liquidityScore b) \<le> or_zero (row_liquidityScore a))
     (marketComparison st)"
proof -
  show "mset (marketComparison st) =
     mset (map comparisonRow
            (filter (\<lambda>s. source s \<noteq> ''error'' \<and> liquidityScore s \<noteq> None)
               (List.map_filter (getLiquiditySnapshot st) (getSymbols st))))"
    by (simp add: marketComparison_def Let_def mset_sort_by collectSnapshots_eq conj_commute)
  have "sorted_wrt (\<lambda>a b. or_zero (row_liquidityScore (comparisonRow b)) \<le> or_zero (row_liquidityScore (comparisonRow a)))
      (sort_by compareScore (filter (\<lambda>s. liquidityScore s \<noteq> None) (collectSnapshots st (getSymbols st))))"
    using sorted_sort_by by (simp add: comparisonRow_def)
  then show "sorted_wrt (\<lambda>a b. or_zero (row_liquidityScore b) \<le> or_zero (row_liquidityScore a))
     (marketComparison st)"
    by (simp add: marketComparison_def Let_def sorted_wrt_map)
qed

text \<open>
  The snapshots of the store. Every snapshot that \<open>fetchAllDataForSymbol\<close> returns
  carries a liquidity score: the enrichment sets it, and the error snapshot has the
  score 0. The snapshots of the store are saved by the poller and by the two routes
  that fill a missing entry, each time the result of \<open>fetchAllDataForSymbol\<close>; so
  every snapshot of the store carries a score, from the new store on.
\<close>

lemma withMetrics_scored: "\<exists>score. liquidityScore (withMetrics d mcap rs) = Some score"
  by (simp add: withMetrics_def Let_def split: prod.splits)

lemma fetchAll_scored:
  assumes "fst (fetchAllDataForSymbol w api symb) = Inr snap"
  shows "liquidityScore snap \<noteq> None"
proof (cases "fst (fetchYahooFinanceData w api symb)")
  case (Inr y)
  obtain st1 where f: "fetchYahooFinanceData w api symb = (Inr y, st1)"
    using Inr by (cases "fetchYahooFinanceData w api symb") auto
  show ?thesis
    using assms f
    by (auto simp: fetchAllDataForSymbol_def yahooBranch_def Let_def withMetrics_scored
        split: prod.splits)
next
  case (Inl e)
  let ?st1 = "snd (fetchYahooFinanceData w api symb)"
  show ?thesis
  proof (cases "fst (fetchAlphaVantageDailyData w ?st1 symb)")
    case (Inr d)
    obtain st2 where f: "fetchAlphaVantageDailyData w ?st1 symb = (Inr d, st2)"
      using Inr by (cases "fetchAlphaVantageDailyData w ?st1 symb") auto
    show ?thesis
      using assms f
      by (auto simp: fetchAllDataForSymbol_def yahooBranch_Inl [OF Inl] alphaVantageBranch_def
          Let_def withMetrics_scored)
  next
    case Inl2: (Inl e2)
    show ?thesis
      using assms
      by (auto simp: fetchAllDataForSymbol_def yahooBranch_Inl [OF Inl]
          alphaVantageBranch_Inl [OF Inl2] errorSnapshot_def)
  qed
qed

lemma scored_newMemStorage: "getLiquiditySnapshot newMemStorage symb = None"
  by (simp add: getLiquiditySnapshot_def newMemStorage_def)

lemma scored_saveLiquiditySnapshot:
  assumes "\<forall>symb s. getLiquiditySnapshot st symb = Some s \<longrightarrow> liquidityScore s \<noteq> None"
    and "fst (fetchAllDataForSymbol w api symb') = Inr snap"
  shows "\<forall>symb s. getLiquiditySnapshot (saveLiquiditySnapshot st snap) symb = Some s \<longrightarrow>
           liquidityScore s \<noteq> None"
  using assms(1) fetchAll_scored [OF assms(2)]
  by (auto simp: getLiquiditySnapshot_def saveLiquiditySnapshot_def)

lemma scored_saveTrade:
  "getLiquiditySnapshot (saveTrade st trade) symb = getLiquiditySnapshot st symb"
  by (simp add: getLiquiditySnapshot_def saveTrade_def Let_def)

lemma scored_configured:
  assumes "\<forall>symb s. getLiquiditySnapshot st symb = Some s \<longrightarrow> liquidityScore s \<noteq> None"
  shows "list_all (\<lambda>s. liquidityScore s \<noteq> None)
           (List.map_filter (getLiquiditySnapshot st) (getSymbols st))"
  using assms by (auto simp: list_all_iff List.map_filter_def)

text \<open>The key of the comparator is the score itself when the score is a number.\<close>

lemma or_zero_Some: "x \<noteq> NaN \<Longrightarrow> or_zero (Some x) = x"
  by (simp add: or_zero_def truthy_def)

text \<open>
  C9. On a store in which the snapshots of the configured symbols all carry a liquidity
  score, as in every store of the program, the comparison consists of the stored
  snapshots of the configured symbols that are not tagged \<open>error\<close>, each projected
  to the comparison fields
  (symbol, current price, liquidity score, bid price, ask price, volume, spread
  percentage, market depth ratio, slippage impact), in descending order of the
  liquidity score as the comparator reads it (\<^verbatim>\<open>liquidityScore || 0\<close>).
\<close>

theorem marketComparison_of_stored_snapshots:
  assumes "list_all (\<lambda>s. liquidityScore s \<noteq> None)
             (List.map_filter (getLiquiditySnapshot st) (getSymbols st))"
  shows "mset (marketComparison st) =
     mset (map (\<lambda>s. \<lparr> row_symbol = symbol s,
                      currentPrice = (bidPrice s + askPrice s) / Fin 2,
                      row_liquidityScore = liquidityScore s,
                      row_bidPrice = bidPrice s, row_askPrice = askPrice s,
                      row_volume24h = volume24h s,
                      row_spreadPercentage = spreadPercentage s,
                      row_marketDepthRatio = marketDepthRatio s,
                      row_slippageImpact = slippageImpact s \<rparr>)
            (filter (\<lambda>s. source s \<noteq> ''error'')
               (List.map_filter (getLiquiditySnapshot st) (getSymbols st)))) \<and>
   sorted_wrt (\<lambda>a b. or_zero (row_liquidityScore b) \<le> or_zero (row_liquidityScore a))
     (marketComparison st)"
proof -
  have row: "(\<lambda>s. \<lparr> row_symbol = symbol s,
                      currentPrice = (bidPrice s + askPrice s) / Fin 2,
                      row_liquidityScore = liquidityScore s,
                      row_bidPrice = bidPrice s, row_askPrice = askPrice s,
                      row_volume24h = volume24h s,
                      row_spreadPercentage = spreadPercentage s,
                      row_marketDepthRatio = marketDepthRatio s,
                      row_slippageImpact = slippageImpact s \<rparr>) = comparisonRow"
    by (simp add: comparisonRow_def fun_eq_iff)
  have "\<forall>s \<in> set (List.map_filter (getLiquiditySnapshot st) (getSymbols st)). liquidityScore s \<noteq> None"
    using assms by (simp add: list_all_iff)
  then have "filter (\<lambda>s. source s \<noteq> ''error'' \<and> liquidityScore s \<noteq> None)
        (List.map_filter (getLiquiditySnapshot st) (getSymbols st)) =
      filter (\<lambda>s. source s \<noteq> ''error'')
        (List.map_filter (getLiquiditySnapshot st) (getSymbols st))"
    by (intro filter_cong) auto
  then show ?thesis
    unfolding row using marketComparison_filtered [of st] by simp
qed

text \<open>
  A store with a snapshot scored 62, one scored 71 and an error snapshot: the comparison
  lists the second before the first and leaves the third out.
\<close>

lemma marketComparison_comparisonStore:
  "marketComparison comparisonStore = [comparisonRow ethSnapshot, comparisonRow btcSnapshot]"
  by (simp add: comparisonStore_def ltcErrorSnapshot_def ethSnapshot_def btcSnapshot_def
      saveLiquiditySnapshot_def newMemStorage_def getSymbols_def getLiquiditySnapshot_def
      marketComparison_def sort_by_def compareScore_def or_zero_def truthy_def minus_number_def
      ovf_small)

text \<open>The two rows of that store, and their order, from the theorem.\<close>

theorem marketComparison_of_stored_snapshots_witness:
  "list_all (\<lambda>s. liquidityScore s \<noteq> None)
     (List.map_filter (getLiquiditySnapshot comparisonStore) (getSymbols comparisonStore)) \<and>
   mset (marketComparison comparisonStore) =
     {# \<lparr> row_symbol = ''BTC/USD'', currentPrice = Fin 50000, row_liquidityScore = Some (Fin 62),
           row_bidPrice = Fin 49975, row_askPrice = Fin 50025, row_volume24h = Fin 1000,
           row_spreadPercentage = Some (Fin 0.1), row_marketDepthRatio = Some (Fin 1),
           row_slippageImpact = None \<rparr>,
        \<lparr> row_symbol = ''ETH/USD'', currentPrice = Fin 2000, row_liquidityScore = Some (Fin 71),
           row_bidPrice = Fin 1998, row_askPrice = Fin 2002, row_volume24h = Fin 500,
           row_spreadPercentage = Some (Fin 0.2), row_marketDepthRatio = Some (Fin 0.5),
           row_slippageImpact = None \<rparr> #} \<and>
   sorted_wrt (\<lambda>a b. or_zero (row_liquidityScore b) \<le> or_zero (row_liquidityScore a))
     (marketComparison comparisonStore)"
proof -
  have stored: "List.map_filter (getLiquiditySnapshot comparisonStore) (getSymbols comparisonStore) =
      [btcSnapshot, ethSnapshot, ltcErrorSnapshot]"
    by (simp add: comparisonStore_def ltcErrorSnapshot_def ethSnapshot_def btcSnapshot_def
        saveLiquiditySnapshot_def newMemStorage_def getSymbols_def getLiquiditySnapshot_def
        List.map_filter_simps)
  have scored: "list_all (\<lambda>s. liquidityScore s \<noteq> None)
     (List.map_filter (getLiquiditySnapshot comparisonStore) (getSymbols comparisonStore))"
    unfolding stored by (simp add: ltcErrorSnapshot_def ethSnapshot_def btcSnapshot_def)
  have rows: "mset (marketComparison comparisonStore) =
     {# \<lparr> row_symbol = ''BTC/USD'', currentPrice = Fin 50000, row_liquidityScore = Some (Fin 62),
           row_bidPrice = Fin 49975, row_askPrice = Fin 50025, row_volume24h = Fin 1000,
           row_spreadPercentage = Some (Fin 0.1), row_marketDepthRatio = Some (Fin 1),
           row_slippageImpact = None \<rparr>,
        \<lparr> row_symbol = ''ETH/USD'', currentPrice = Fin 2000, row_liquidityScore = Some (Fin 71),
           row_bidPrice = Fin 1998, row_askPrice = Fin 2002, row_volume24h = Fin 500,
           row_spreadPercentage = Some (Fin 0.2), row_marketDepthRatio = Some (Fin 0.5),
           row_slippageImpact = None \<rparr> #}"
    using marketComparison_of_stored_snapshots [OF scored, THEN conjunct1]
    unfolding stored
    by (simp add: ltcErrorSnapshot_def ethSnapshot_def btcSnapshot_def ovf_small)
  have order: "sorted_wrt (\<lambda>a b. or_zero (row_liquidityScore b) \<le> or_zero (row_liquidityScore a))
     (marketComparison comparisonStore)"
    using marketComparison_of_stored_snapshots [OF scored, THEN conjunct2] .
  show ?thesis
    by (intro conjI) (fact scored rows order)+
qed

end
